theory Spec2Isabelle
  imports Main "HOL-Library.Word"
begin

unbundle bit_operations_syntax

section \<open>GK20A instance memory (nvkm/subdev/instmem/gk20a.c)\<close>

text \<open>
  A shallow embedding of the GK20A instance-memory implementation. Integers of the C
  source are words of their width; the kernel services the file calls (page allocator,
  DMA API, IOMMU API, address-space allocator, MMIO accessors) are an explicit state:
  the answers they are going to give are data of that state, and every call is appended
  to a log. Locks are not modelled: the embedding is sequential.
\<close>

type_synonym u8 = "8 word"
type_synonym u32 = "32 word"
type_synonym u64 = "64 word"

subsection \<open>Constants\<close>

text \<open>
  \<open>PAGE_SHIFT\<close> is the kernel's constant; it is 12 on the ARM platform GK20A lives on,
  and the source relies on that value when it counts the entries of \<open>pages[]\<close> with
  \<open>size >> 12\<close>.
\<close>

definition PAGE_SHIFT :: nat where
  "PAGE_SHIFT = 12"

definition PAGE_SIZE :: u32 where
  "PAGE_SIZE = push_bit PAGE_SHIFT 1"

definition ENOMEM :: int where
  "ENOMEM = 12"

definition ENOSPC :: int where
  "ENOSPC = 28"

text \<open>
  The kernel's \<open>roundup(x, y)\<close> macro, \<open>((x + (y - 1)) / y) * y\<close>, in 32 bits: the
  width of \<open>u32\<close> and, on this platform, of the \<open>unsigned long\<close> \<open>PAGE_SIZE\<close>.
\<close>

definition roundup :: "u32 \<Rightarrow> u32 \<Rightarrow> u32" where
  "roundup x y = ((x + (y - 1)) div y) * y"

subsection \<open>Data\<close>

text \<open>
  \<open>struct nvkm_mm_node\<close> is declared in core/mm.h, where \<open>type\<close> is a \<open>u8\<close> and
  \<open>offset\<close> and \<open>length\<close> are \<open>u32\<close>; the source widens \<open>r->offset\<close> with a cast
  to \<open>u64\<close> before shifting it into a byte address.
\<close>

record nvkm_mm_node =
  node_type :: u8
  node_offset :: u32
  node_length :: u32

record nvkm_mem =
  mem_offset :: u64
  mem_size :: u64
  mem_memtype :: u8
  mem_page_shift :: u8
  mem_regions :: "nvkm_mm_node list"

text \<open>\<open>struct page *\<close>: a page is named by its frame number, \<open>None\<close> is \<open>NULL\<close>.\<close>

datatype page = Page nat

text \<open>
  The two layouts that extend \<open>struct gk20a_instobj\<close>: \<open>gk20a_instobj_dma\<close>
  (\<open>cpuaddr\<close>, \<open>handle\<close>, \<open>r\<close>) and \<open>gk20a_instobj_iommu\<close> (\<open>pages[]\<close>).
  The pointer \<open>cpuaddr\<close> is its address, 0 when null; \<open>dma_addr_t\<close> is taken at
  its widest, 64 bits.
\<close>

datatype backend =
    Dma_obj u64 u64 nvkm_mm_node
  | Iommu_obj "page option list"

text \<open>\<open>node->mem\<close> is either null or the address of the object's own \<open>_mem\<close>.\<close>

datatype mem_ptr = NULL | Ptr_mem_obj

record gk20a_instobj =
  base_addr :: u64
  base_size :: u32
  mem :: mem_ptr
  mem_obj :: nvkm_mem
  ext :: backend

datatype dma_attr =
    DMA_ATTR_NON_CONSISTENT
  | DMA_ATTR_WEAK_ORDERING
  | DMA_ATTR_WRITE_COMBINE
  | DMA_ATTR_NO_KERNEL_MAPPING

text \<open>
  \<open>struct gk20a_instmem\<close>. \<open>domain\<close> is the \<open>iommu_domain\<close> pointer (\<open>None\<close> when
  null); \<open>mm\<close> and \<open>mm_mutex\<close> point into the state of the kernel services below.
\<close>

record gk20a_instmem =
  addr :: u64
  domain :: "nat option"
  iommu_pgshift :: nat
  attrs :: "dma_attr list"

datatype fault = Null_pointer | Out_of_bounds | Bad_cast

subsection \<open>The register interface\<close>

text \<open>
  \<open>nvkm_wr32\<close> and \<open>nvkm_rd32\<close> act on a store of 32-bit registers addressed by
  register offset; every access is logged.
\<close>

datatype reg_access = Wr32 u32 u32 | Rd32 u32

record nvkm_device =
  regs :: "u32 \<Rightarrow> u32"
  mmio :: "reg_access list"

definition nvkm_wr32 :: "nvkm_device \<Rightarrow> u32 \<Rightarrow> u32 \<Rightarrow> nvkm_device" where
  "nvkm_wr32 device a v =
     device\<lparr>regs := (regs device)(a := v), mmio := mmio device @ [Wr32 a v]\<rparr>"

definition nvkm_rd32 :: "nvkm_device \<Rightarrow> u32 \<Rightarrow> u32 \<times> nvkm_device" where
  "nvkm_rd32 device a = (regs device a, device\<lparr>mmio := mmio device @ [Rd32 a]\<rparr>)"

subsection \<open>Coherent access through PRAMIN\<close>

text \<open>
  The part the two accessors share: compare the cached window with \<open>base\<close> and
  repoint register \<open>0x001700\<close> when they differ.
\<close>

definition repoint :: "gk20a_instmem \<Rightarrow> nvkm_device \<Rightarrow> u64 \<Rightarrow> gk20a_instmem \<times> nvkm_device" where
  "repoint imem device base =
     (if addr imem \<noteq> base
      then (imem\<lparr>addr := base\<rparr>, nvkm_wr32 device 0x001700 (ucast (drop_bit 16 base)))
      else (imem, device))"

definition gk20a_instobj_rd32 ::
  "gk20a_instmem \<Rightarrow> nvkm_device \<Rightarrow> gk20a_instobj \<Rightarrow> u64
     \<Rightarrow> fault + (u32 \<times> gk20a_instmem \<times> nvkm_device)" where
  "gk20a_instobj_rd32 imem device node offset =
     (case mem node of
        NULL \<Rightarrow> Inl Null_pointer
      | Ptr_mem_obj \<Rightarrow>
          (let base = (mem_offset (mem_obj node) + offset) AND 0xffffff00000;
               a = (mem_offset (mem_obj node) + offset) AND 0x000000fffff;
               (imem', device') = repoint imem device base;
               (data, device'') = nvkm_rd32 device' (ucast (0x700000 + a))
           in Inr (data, imem', device'')))"

definition gk20a_instobj_wr32 ::
  "gk20a_instmem \<Rightarrow> nvkm_device \<Rightarrow> gk20a_instobj \<Rightarrow> u64 \<Rightarrow> u32
     \<Rightarrow> fault + (gk20a_instmem \<times> nvkm_device)" where
  "gk20a_instobj_wr32 imem device node offset data =
     (case mem node of
        NULL \<Rightarrow> Inl Null_pointer
      | Ptr_mem_obj \<Rightarrow>
          (let base = (mem_offset (mem_obj node) + offset) AND 0xffffff00000;
               a = (mem_offset (mem_obj node) + offset) AND 0x000000fffff;
               (imem', device') = repoint imem device base
           in Inr (imem', nvkm_wr32 device' (ucast (0x700000 + a)) data)))"

text \<open>
  \<open>gk20a_instmem_fini\<close>: the cached window becomes \<open>~0ULL\<close>; the value returned is
  that of \<open>nvkm_instmem_fini\<close>, taken as the parameter \<open>fini_ret\<close>. That function is
  handed the base object \<open>&imem->base\<close> only; the state below is the one the store of
  the sentinel leaves.
\<close>

definition gk20a_instmem_fini :: "gk20a_instmem \<Rightarrow> int \<Rightarrow> int \<times> gk20a_instmem" where
  "gk20a_instmem_fini imem fini_ret = (fini_ret, imem\<lparr>addr := NOT 0\<rparr>)"

subsection \<open>Kernel services\<close>

text \<open>
  Every call the file makes into the kernel is logged, with its result (debug and info
  messages apart, which are left out). The sizes and protection flags of \<open>iommu_map\<close>
  and \<open>iommu_unmap\<close> are the constants \<open>PAGE_SIZE\<close> and
  \<open>IOMMU_READ | IOMMU_WRITE\<close> and are left out of the log; the physical address
  \<open>page_to_phys(p)\<close> is logged as the page \<open>p\<close> it is computed from.
\<close>

datatype call =
    Alloc_page "page option"
  | Free_page page
  | Mm_head u32 u32 "nvkm_mm_node option"
  | Mm_free nvkm_mm_node
  | Iommu_map u32 "page option" int
  | Iommu_unmap u32
  | Dma_alloc u32 u64 u64
  | Dma_free u64 u64 u64
  | Instobj_destroy
  | Nvkm_error string
  | Nvkm_warn string

text \<open>
  The answers the services are going to give, in the order of the calls: the pages of
  \<open>alloc_page\<close> (\<open>None\<close> is a failed allocation), the offsets of the ranges
  \<open>nvkm_mm_head\<close> finds (\<open>None\<close> when the address space is full), the values
  \<open>iommu_map\<close> returns, and the (\<open>cpuaddr\<close>, \<open>handle\<close>) pairs of
  \<open>dma_alloc_attrs\<close>. A service whose answers are used up fails.
\<close>

record kernel =
  page_supply :: "page option list"
  mm_supply :: "u32 option list"
  map_supply :: "int list"
  dma_supply :: "(u64 \<times> u64) list"
  calls :: "call list"

definition log_call :: "call \<Rightarrow> kernel \<Rightarrow> kernel" where
  "log_call c k = k\<lparr>calls := calls k @ [c]\<rparr>"

definition alloc_page :: "kernel \<Rightarrow> page option \<times> kernel" where
  "alloc_page k =
     (case page_supply k of
        [] \<Rightarrow> (None, log_call (Alloc_page None) k)
      | p # ps \<Rightarrow> (p, log_call (Alloc_page p) (k\<lparr>page_supply := ps\<rparr>)))"

definition free_page :: "page \<Rightarrow> kernel \<Rightarrow> kernel" where
  "free_page p k = log_call (Free_page p) k"

text \<open>
  \<open>nvkm_mm_head(mm, 0, 1, npages, npages, align, &r)\<close>: on success the node is of type
  1 and spans exactly the \<open>npages\<close> units asked for (\<open>size_max = size_min\<close>), at the
  offset the allocator chose (\<open>Inr\<close>); on failure the result is the nonzero
  \<open>-ENOSPC\<close> and no node (\<open>Inl\<close>).
\<close>

definition nvkm_mm_head :: "u32 \<Rightarrow> u32 \<Rightarrow> kernel \<Rightarrow> (int + nvkm_mm_node) \<times> kernel" where
  "nvkm_mm_head npages align k =
     (case mm_supply k of
        [] \<Rightarrow> (Inl (- ENOSPC), log_call (Mm_head npages align None) k)
      | None # ms \<Rightarrow>
          (Inl (- ENOSPC), log_call (Mm_head npages align None) (k\<lparr>mm_supply := ms\<rparr>))
      | Some off # ms \<Rightarrow>
          (let r = \<lparr>node_type = 1, node_offset = off, node_length = npages\<rparr>
           in (Inr r, log_call (Mm_head npages align (Some r)) (k\<lparr>mm_supply := ms\<rparr>))))"

definition nvkm_mm_free :: "nvkm_mm_node \<Rightarrow> kernel \<Rightarrow> kernel" where
  "nvkm_mm_free r k = log_call (Mm_free r) k"

definition iommu_map :: "u32 \<Rightarrow> page option \<Rightarrow> kernel \<Rightarrow> int \<times> kernel" where
  "iommu_map iova p k =
     (case map_supply k of
        [] \<Rightarrow> (- ENOMEM, log_call (Iommu_map iova p (- ENOMEM)) k)
      | ret # rs \<Rightarrow> (ret, log_call (Iommu_map iova p ret) (k\<lparr>map_supply := rs\<rparr>)))"

definition iommu_unmap :: "u32 \<Rightarrow> kernel \<Rightarrow> kernel" where
  "iommu_unmap iova k = log_call (Iommu_unmap iova) k"

definition dma_alloc_attrs :: "u32 \<Rightarrow> kernel \<Rightarrow> u64 \<times> u64 \<times> kernel" where
  "dma_alloc_attrs sz k =
     (case dma_supply k of
        [] \<Rightarrow> (0, 0, log_call (Dma_alloc sz 0 0) k)
      | (cpu, h) # ds \<Rightarrow> (cpu, h, log_call (Dma_alloc sz cpu h) (k\<lparr>dma_supply := ds\<rparr>)))"

definition dma_free_attrs :: "u64 \<Rightarrow> u64 \<Rightarrow> u64 \<Rightarrow> kernel \<Rightarrow> kernel" where
  "dma_free_attrs sz cpu h k = log_call (Dma_free sz cpu h) k"

definition nvkm_error :: "string \<Rightarrow> kernel \<Rightarrow> kernel" where
  "nvkm_error msg k = log_call (Nvkm_error msg) k"

definition nvkm_warn :: "string \<Rightarrow> kernel \<Rightarrow> kernel" where
  "nvkm_warn msg k = log_call (Nvkm_warn msg) k"

definition nvkm_instobj_destroy :: "kernel \<Rightarrow> kernel" where
  "nvkm_instobj_destroy k = log_call Instobj_destroy k"

text \<open>
  The object \<open>nvkm_instobj_create_\<close> hands to a constructor is zero-filled. A zero-filled
  list head is not yet a list; it is written as the empty list here, and can only be read
  through \<open>mem\<close>, which is null until \<open>gk20a_instobj_ctor\<close> has succeeded.
\<close>

definition new_instobj :: "backend \<Rightarrow> gk20a_instobj" where
  "new_instobj e =
     \<lparr>base_addr = 0, base_size = 0, mem = NULL,
      mem_obj = \<lparr>mem_offset = 0, mem_size = 0, mem_memtype = 0, mem_page_shift = 0,
                 mem_regions = []\<rparr>,
      ext = e\<rparr>"

subsection \<open>Destructors\<close>

definition gk20a_instobj_dtor_dma :: "gk20a_instobj \<Rightarrow> kernel \<Rightarrow> fault + kernel" where
  "gk20a_instobj_dtor_dma node k =
     (case ext node of
        Iommu_obj ps \<Rightarrow> Inl Bad_cast
      | Dma_obj cpu h rn \<Rightarrow>
          if cpu = 0 then Inr k
          else (case mem node of
                  NULL \<Rightarrow> Inl Null_pointer
                | Ptr_mem_obj \<Rightarrow>
                    Inr (dma_free_attrs (push_bit PAGE_SHIFT (mem_size (mem_obj node))) cpu h k)))"

text \<open>
  The loop of \<open>gk20a_instobj_dtor_iommu\<close>; the first argument counts the iterations
  left, \<open>i\<close> is the loop variable. Reading \<open>pages[i]\<close> beyond the array, or freeing a
  null page, is a fault.
\<close>

fun unmap_and_free ::
  "nat \<Rightarrow> nat \<Rightarrow> u32 \<Rightarrow> page option list \<Rightarrow> nat \<Rightarrow> kernel \<Rightarrow> fault + kernel" where
  "unmap_and_free 0 pgshift off ps i k = Inr k"
| "unmap_and_free (Suc n) pgshift off ps i k =
     (let k1 = iommu_unmap (push_bit pgshift (off + of_nat i)) k
      in if length ps \<le> i then Inl Out_of_bounds
         else (case ps ! i of
                 None \<Rightarrow> Inl Null_pointer
               | Some p \<Rightarrow> unmap_and_free n pgshift off ps (Suc i) (free_page p k1)))"

text \<open>
  \<open>BIT(34 - imem->iommu_pgshift)\<close> is an \<open>unsigned long\<close>; stored into the \<open>u32\<close>
  field \<open>r->offset\<close> it keeps its low 32 bits. The C expression is defined for a page
  shift of at most 34.
\<close>

definition iommu_tag :: "gk20a_instmem \<Rightarrow> u32" where
  "iommu_tag imem = push_bit (34 - iommu_pgshift imem) 1"

definition gk20a_instobj_dtor_iommu ::
  "gk20a_instmem \<Rightarrow> gk20a_instobj \<Rightarrow> kernel \<Rightarrow> fault + kernel" where
  "gk20a_instobj_dtor_iommu imem node k =
     (case mem node of
        NULL \<Rightarrow> Inl Null_pointer
      | Ptr_mem_obj \<Rightarrow>
          (case mem_regions (mem_obj node) of
             [] \<Rightarrow> Inr k
           | rn # rest \<Rightarrow>
               (case ext node of
                  Dma_obj cpu h rd \<Rightarrow> Inl Bad_cast
                | Iommu_obj ps \<Rightarrow>
                    (let rn' = rn\<lparr>node_offset := node_offset rn AND NOT (iommu_tag imem)\<rparr>
                     in case unmap_and_free (unat (mem_size (mem_obj node)))
                               (iommu_pgshift imem) (node_offset rn') ps 0 k of
                          Inl f \<Rightarrow> Inl f
                        | Inr k' \<Rightarrow> Inr (nvkm_mm_free rn' k')))))"

definition gk20a_instobj_dtor ::
  "gk20a_instmem \<Rightarrow> gk20a_instobj \<Rightarrow> kernel \<Rightarrow> fault + kernel" where
  "gk20a_instobj_dtor imem node k =
     (case (if domain imem \<noteq> None then gk20a_instobj_dtor_iommu imem node k
            else gk20a_instobj_dtor_dma node k) of
        Inl f \<Rightarrow> Inl f
      | Inr k' \<Rightarrow> Inr (nvkm_instobj_destroy k'))"

subsection \<open>Constructors\<close>

text \<open>
  \<open>create_ret\<close> is the value \<open>nvkm_instobj_create_\<close> returned; when it is not 0 the
  constructor returns it at once and there is no object.
\<close>

definition gk20a_instobj_ctor_dma ::
  "gk20a_instmem \<Rightarrow> int \<Rightarrow> u32 \<Rightarrow> u32 \<Rightarrow> kernel \<Rightarrow> int \<times> gk20a_instobj option \<times> kernel" where
  "gk20a_instobj_ctor_dma imem create_ret npages align k =
     (if create_ret \<noteq> 0 then (create_ret, None, k)
      else
        (case dma_alloc_attrs (push_bit PAGE_SHIFT npages) k of
           (cpu, h, k1) \<Rightarrow>
             if cpu = 0
             then (- ENOMEM, Some (new_instobj (Dma_obj cpu h \<lparr>node_type = 0, node_offset = 0, node_length = 0\<rparr>)),
                   nvkm_error ''cannot allocate DMA memory'' k1)
             else
               (let k2 = (if h AND ucast (align - 1) \<noteq> 0
                          then nvkm_warn ''memory not aligned as requested'' k1 else k1);
                    rn = \<lparr>node_type = 12, node_offset = ucast (drop_bit 12 h),
                          node_length = drop_bit 12 (push_bit PAGE_SHIFT npages)\<rparr>;
                    node = new_instobj (Dma_obj cpu h rn)
                in (0, Some (node\<lparr>mem_obj := (mem_obj node)\<lparr>mem_offset := h, mem_regions := [rn]\<rparr>\<rparr>),
                    k2))))"

text \<open>
  The allocation loop of \<open>gk20a_instobj_ctor_iommu\<close>: the first argument counts the
  iterations left, \<open>i\<close> is the loop variable, \<open>ps\<close> the array \<open>node->pages\<close>.
  The result says whether every page was obtained.
\<close>

fun alloc_pages :: "nat \<Rightarrow> nat \<Rightarrow> page option list \<Rightarrow> kernel \<Rightarrow> bool \<times> page option list \<times> kernel" where
  "alloc_pages 0 i ps k = (True, ps, k)"
| "alloc_pages (Suc n) i ps k =
     (case alloc_page k of
        (None, k') \<Rightarrow> (False, ps, k')
      | (Some p, k') \<Rightarrow> alloc_pages n (Suc i) (ps[i := Some p]) k')"

text \<open>The loop at \<open>free_pages:\<close>, over the array from index 0, up to the first null entry.\<close>

fun free_pages :: "page option list \<Rightarrow> kernel \<Rightarrow> kernel" where
  "free_pages [] k = k"
| "free_pages (None # ps) k = k"
| "free_pages (Some p # ps) k = free_pages ps (free_page p k)"

text \<open>
  The unwinding loop \<open>while (i-- > 0) { offset -= PAGE_SIZE; iommu_unmap(...); }\<close>.
\<close>

fun unmap_mapped :: "nat \<Rightarrow> u32 \<Rightarrow> kernel \<Rightarrow> kernel" where
  "unmap_mapped 0 offset k = k"
| "unmap_mapped (Suc i) offset k =
     unmap_mapped i (offset - PAGE_SIZE) (iommu_unmap (offset - PAGE_SIZE) k)"

text \<open>
  The mapping loop: the first argument counts the iterations left, \<open>i\<close> is the loop
  variable. \<open>Some ret\<close> is the negative value of the \<open>iommu_map\<close> that failed, after
  the unwinding; \<open>None\<close> means that every page is mapped.
\<close>

fun map_pages ::
  "nat \<Rightarrow> nat \<Rightarrow> u32 \<Rightarrow> page option list \<Rightarrow> nat \<Rightarrow> kernel \<Rightarrow> int option \<times> kernel" where
  "map_pages 0 pgshift off ps i k = (None, k)"
| "map_pages (Suc n) pgshift off ps i k =
     (let offset = push_bit pgshift (off + of_nat i)
      in case iommu_map offset (ps ! i) k of
           (ret, k1) \<Rightarrow>
             if ret < 0
             then (Some ret, unmap_mapped i offset (nvkm_error ''IOMMU mapping failure'' k1))
             else map_pages n pgshift off ps (Suc i) k1)"

definition gk20a_instobj_ctor_iommu ::
  "gk20a_instmem \<Rightarrow> int \<Rightarrow> u32 \<Rightarrow> u32 \<Rightarrow> kernel \<Rightarrow> int \<times> gk20a_instobj option \<times> kernel" where
  "gk20a_instobj_ctor_iommu imem create_ret npages align k =
     (if create_ret \<noteq> 0 then (create_ret, None, k)
      else
        (case alloc_pages (unat npages) 0 (replicate (unat npages) None) k of
           (False, ps, k1) \<Rightarrow> (- ENOMEM, Some (new_instobj (Iommu_obj ps)), free_pages ps k1)
         | (True, ps, k1) \<Rightarrow>
             (case nvkm_mm_head npages (drop_bit (iommu_pgshift imem) align) k1 of
                (Inl ret, k2) \<Rightarrow>
                  (ret, Some (new_instobj (Iommu_obj ps)),
                   free_pages ps (nvkm_error ''virtual space is full!'' k2))
              | (Inr rn, k2) \<Rightarrow>
                  (case map_pages (unat npages) (iommu_pgshift imem) (node_offset rn) ps 0 k2 of
                     (Some ret, k3) \<Rightarrow>
                       (ret, Some (new_instobj (Iommu_obj ps)),
                        free_pages ps (nvkm_mm_free rn k3))
                   | (None, k3) \<Rightarrow>
                       (let rn' = rn\<lparr>node_offset := node_offset rn OR iommu_tag imem\<rparr>;
                            node = new_instobj (Iommu_obj ps)
                        in (0,
                            Some (node\<lparr>mem_obj := (mem_obj node)
                                    \<lparr>mem_offset := push_bit (iommu_pgshift imem) (ucast (node_offset rn')),
                                     mem_regions := [rn']\<rparr>\<rparr>),
                            k3))))))"

definition gk20a_instobj_ctor ::
  "gk20a_instmem \<Rightarrow> int \<Rightarrow> u32 \<Rightarrow> u32 \<Rightarrow> kernel \<Rightarrow> int \<times> gk20a_instobj option \<times> kernel" where
  "gk20a_instobj_ctor imem create_ret args_size args_align k =
     (let size = max (roundup args_size PAGE_SIZE) PAGE_SIZE;
          align = max (roundup args_align PAGE_SIZE) PAGE_SIZE
      in case (if domain imem \<noteq> None
               then gk20a_instobj_ctor_iommu imem create_ret (drop_bit PAGE_SHIFT size) align k
               else gk20a_instobj_ctor_dma imem create_ret (drop_bit PAGE_SHIFT size) align k) of
           (ret, None, k') \<Rightarrow> (ret, None, k')
         | (ret, Some node, k') \<Rightarrow>
             if ret \<noteq> 0 then (ret, Some node, k')
             else (0,
                   Some (node\<lparr>mem := Ptr_mem_obj,
                           mem_obj := (mem_obj node)
                             \<lparr>mem_size := ucast (drop_bit 12 size), mem_memtype := 0,
                              mem_page_shift := 12\<rparr>,
                           base_addr := mem_offset (mem_obj node),
                           base_size := size\<rparr>),
                   k'))"

subsection \<open>The subsystem\<close>

text \<open>
  \<open>device->gpu->iommu\<close>, as far as \<open>gk20a_instmem_ctor\<close> reads it. \<open>create_ret\<close>
  is the value \<open>nvkm_instmem_create\<close> returned; the subsystem it creates is zero-filled.
\<close>

record gpu_iommu =
  gpu_domain :: "nat option"
  gpu_pgshift :: nat

definition gk20a_instmem_ctor :: "gpu_iommu \<Rightarrow> int \<Rightarrow> int \<times> gk20a_instmem option" where
  "gk20a_instmem_ctor iommu create_ret =
     (if create_ret \<noteq> 0 then (create_ret, None)
      else
        (let imem = \<lparr>addr = 0, domain = None, iommu_pgshift = 0, attrs = []\<rparr>
         in if gpu_domain iommu \<noteq> None
            then (0, Some (imem\<lparr>domain := gpu_domain iommu, iommu_pgshift := gpu_pgshift iommu\<rparr>))
            else (0, Some (imem\<lparr>attrs := [DMA_ATTR_NON_CONSISTENT, DMA_ATTR_WEAK_ORDERING,
                                          DMA_ATTR_WRITE_COMBINE, DMA_ATTR_NO_KERNEL_MAPPING]\<rparr>))))"

section \<open>Observations\<close>

subsection \<open>Of the kernel log\<close>

text \<open>The calls made between two states of the kernel.\<close>

definition new_calls :: "kernel \<Rightarrow> kernel \<Rightarrow> call list" where
  "new_calls k k' = drop (length (calls k)) (calls k')"

text \<open>
  What a call acquires and what it releases: \<open>alloc_page\<close> acquires the page it hands
  out and \<open>__free_page\<close> releases one; \<open>iommu_map\<close> acquires the mapping of an address
  (a negative result maps nothing) and \<open>iommu_unmap\<close> releases one; \<open>nvkm_mm_head\<close>
  acquires the range it reserves and \<open>nvkm_mm_free\<close> releases one; \<open>dma_alloc_attrs\<close>
  acquires a buffer (a null \<open>cpuaddr\<close> is a failure) and \<open>dma_free_attrs\<close> releases
  one.
\<close>

datatype resource = R_page page | R_iova u32 | R_range nvkm_mm_node | R_dma u64 u64

fun acquires :: "call \<Rightarrow> resource list" where
  "acquires (Alloc_page (Some p)) = [R_page p]"
| "acquires (Iommu_map a p ret) = (if ret < 0 then [] else [R_iova a])"
| "acquires (Mm_head n a (Some rn)) = [R_range rn]"
| "acquires (Dma_alloc sz cpu h) = (if cpu = 0 then [] else [R_dma cpu h])"
| "acquires c = []"

fun releases :: "call \<Rightarrow> resource list" where
  "releases (Free_page p) = [R_page p]"
| "releases (Iommu_unmap a) = [R_iova a]"
| "releases (Mm_free rn) = [R_range rn]"
| "releases (Dma_free sz cpu h) = [R_dma cpu h]"
| "releases c = []"

definition acquired :: "call list \<Rightarrow> resource list" where
  "acquired cs = concat (map acquires cs)"

definition released :: "call list \<Rightarrow> resource list" where
  "released cs = concat (map releases cs)"

text \<open>The resources of one kind in a list, in the order of the list.\<close>

fun page_of :: "resource \<Rightarrow> page list" where
  "page_of (R_page p) = [p]"
| "page_of x = []"

fun iova_of :: "resource \<Rightarrow> u32 list" where
  "iova_of (R_iova a) = [a]"
| "iova_of x = []"

fun range_of :: "resource \<Rightarrow> nvkm_mm_node list" where
  "range_of (R_range rn) = [rn]"
| "range_of x = []"

fun buffer_of :: "resource \<Rightarrow> (u64 \<times> u64) list" where
  "buffer_of (R_dma cpu h) = [(cpu, h)]"
| "buffer_of x = []"

definition pages :: "resource list \<Rightarrow> page list" where
  "pages rs = concat (map page_of rs)"

definition iovas :: "resource list \<Rightarrow> u32 list" where
  "iovas rs = concat (map iova_of rs)"

definition ranges :: "resource list \<Rightarrow> nvkm_mm_node list" where
  "ranges rs = concat (map range_of rs)"

definition buffers :: "resource list \<Rightarrow> (u64 \<times> u64) list" where
  "buffers rs = concat (map buffer_of rs)"

text \<open>The calls that report the failure of a sub-step.\<close>

fun step_failed :: "call \<Rightarrow> bool" where
  "step_failed (Alloc_page None) = True"
| "step_failed (Mm_head n a None) = True"
| "step_failed (Iommu_map a p ret) = (ret < 0)"
| "step_failed (Dma_alloc sz cpu h) = (cpu = 0)"
| "step_failed c = False"

text \<open>
  The address the mapping loop and the destructor compute for page \<open>j\<close> of a range at
  \<open>off\<close>, \<open>(r->offset + j) << iommu_pgshift\<close>, and the addresses the unwinding loop
  visits from \<open>offset\<close> when \<open>i\<close> pages are mapped.
\<close>

definition iova :: "nat \<Rightarrow> u32 \<Rightarrow> nat \<Rightarrow> u32" where
  "iova pgshift off j = push_bit pgshift (off + of_nat j)"

fun unwind_addrs :: "nat \<Rightarrow> u32 \<Rightarrow> u32 list" where
  "unwind_addrs 0 offset = []"
| "unwind_addrs (Suc i) offset = (offset - PAGE_SIZE) # unwind_addrs i (offset - PAGE_SIZE)"

subsection \<open>Of the register log\<close>

definition issued :: "nvkm_device \<Rightarrow> nvkm_device \<Rightarrow> reg_access list" where
  "issued device device' = drop (length (mmio device)) (mmio device')"

text \<open>A repoint is a write to the window register \<open>0x001700\<close>.\<close>

fun is_repoint :: "reg_access \<Rightarrow> bool" where
  "is_repoint (Wr32 a v) = (a = 0x001700)"
| "is_repoint (Rd32 a) = False"

definition repoints :: "reg_access list \<Rightarrow> nat" where
  "repoints accs = length (filter is_repoint accs)"

subsection \<open>Of the accessors\<close>

text \<open>
  What an access leaves behind: the cached window and the register accesses it issued.
\<close>

definition rd32_effect ::
  "gk20a_instmem \<Rightarrow> nvkm_device \<Rightarrow> gk20a_instobj \<Rightarrow> u64 \<Rightarrow> fault + (u64 \<times> reg_access list)" where
  "rd32_effect imem device node offset =
     (case gk20a_instobj_rd32 imem device node offset of
        Inl f \<Rightarrow> Inl f
      | Inr (data, imem', device') \<Rightarrow> Inr (addr imem', issued device device'))"

definition wr32_effect ::
  "gk20a_instmem \<Rightarrow> nvkm_device \<Rightarrow> gk20a_instobj \<Rightarrow> u64 \<Rightarrow> u32 \<Rightarrow> fault + (u64 \<times> reg_access list)" where
  "wr32_effect imem device node offset data =
     (case gk20a_instobj_wr32 imem device node offset data of
        Inl f \<Rightarrow> Inl f
      | Inr (imem', device') \<Rightarrow> Inr (addr imem', issued device device'))"

text \<open>\<open>write32(o, v)\<close> followed immediately by \<open>read32(o)\<close>: the value read.\<close>

definition wr32_then_rd32 ::
  "gk20a_instmem \<Rightarrow> nvkm_device \<Rightarrow> gk20a_instobj \<Rightarrow> u64 \<Rightarrow> u32 \<Rightarrow> fault + u32" where
  "wr32_then_rd32 imem device node offset data =
     (case gk20a_instobj_wr32 imem device node offset data of
        Inl f \<Rightarrow> Inl f
      | Inr (imem', device') \<Rightarrow>
          (case gk20a_instobj_rd32 imem' device' node offset of
             Inl f \<Rightarrow> Inl f
           | Inr (v, imem'', device'') \<Rightarrow> Inr v))"

text \<open>Traces of accesses, and the number of repoints a trace issues.\<close>

datatype access = Read32 gk20a_instobj u64 | Write32 gk20a_instobj u64 u32

fun gpu_offset :: "access \<Rightarrow> u64" where
  "gpu_offset (Read32 node offset) = mem_offset (mem_obj node) + offset"
| "gpu_offset (Write32 node offset data) = mem_offset (mem_obj node) + offset"

fun created :: "access \<Rightarrow> bool" where
  "created (Read32 node offset) = (mem node = Ptr_mem_obj)"
| "created (Write32 node offset data) = (mem node = Ptr_mem_obj)"

fun run_accesses ::
  "gk20a_instmem \<Rightarrow> nvkm_device \<Rightarrow> access list \<Rightarrow> fault + (gk20a_instmem \<times> nvkm_device)" where
  "run_accesses imem device [] = Inr (imem, device)"
| "run_accesses imem device (Read32 node offset # as) =
     (case gk20a_instobj_rd32 imem device node offset of
        Inl f \<Rightarrow> Inl f
      | Inr (data, imem', device') \<Rightarrow> run_accesses imem' device' as)"
| "run_accesses imem device (Write32 node offset data # as) =
     (case gk20a_instobj_wr32 imem device node offset data of
        Inl f \<Rightarrow> Inl f
      | Inr (imem', device') \<Rightarrow> run_accesses imem' device' as)"

definition trace_repoints :: "gk20a_instmem \<Rightarrow> nvkm_device \<Rightarrow> access list \<Rightarrow> fault + nat" where
  "trace_repoints imem device as =
     (case run_accesses imem device as of
        Inl f \<Rightarrow> Inl f
      | Inr (imem', device') \<Rightarrow> Inr (repoints (issued device device')))"

subsection \<open>The formula of the specification\<close>

text \<open>
  One repoint for the first access, and one more for each pair of consecutive accesses
  that lie in different blocks of \<open>ws\<close> bytes, the block of an offset \<open>g\<close> being
  \<open>g & ~(ws - 1)\<close>.
\<close>

fun crossings :: "u64 \<Rightarrow> u64 list \<Rightarrow> nat" where
  "crossings ws (a # b # gs) =
     (if a AND NOT (ws - 1) = b AND NOT (ws - 1) then 0 else 1) + crossings ws (b # gs)"
| "crossings ws gs = 0"

definition spec_repoints :: "u64 \<Rightarrow> u64 list \<Rightarrow> nat" where
  "spec_repoints ws gs = (if gs = [] then 0 else 1 + crossings ws gs)"

definition window_size :: u64 where
  "window_size = 0x100000"

text \<open>
  What the code counts: an access misses when the cached window \<open>c\<close> differs from
  the window base it computes.
\<close>

fun misses :: "u64 \<Rightarrow> u64 list \<Rightarrow> nat" where
  "misses c [] = 0"
| "misses c (g # gs) =
     (if c = g AND 0xffffff00000 then 0 else 1) + misses (g AND 0xffffff00000) gs"

subsection \<open>Concrete states\<close>

definition device0 :: nvkm_device where
  "device0 = \<lparr>regs = (\<lambda>a. 0), mmio = []\<rparr>"

definition kernel0 :: kernel where
  "kernel0 = \<lparr>page_supply = [], mm_supply = [], map_supply = [], dma_supply = [], calls = []\<rparr>"

text \<open>A subsystem without and with an IOMMU, the cached window invalid.\<close>

definition imem_dma :: gk20a_instmem where
  "imem_dma = \<lparr>addr = NOT 0, domain = None, iommu_pgshift = 0, attrs = []\<rparr>"

definition imem_iommu :: gk20a_instmem where
  "imem_iommu = \<lparr>addr = NOT 0, domain = Some 1, iommu_pgshift = 12, attrs = []\<rparr>"

text \<open>A kernel whose DMA allocator has one buffer to give, at bus address 0.\<close>

definition kernel_dma :: kernel where
  "kernel_dma = kernel0\<lparr>dma_supply := [(0xc0000000, 0)]\<rparr>"

text \<open>The object of two pages that \<open>gk20a_instobj_ctor\<close> creates from it.\<close>

definition obj0 :: gk20a_instobj where
  "obj0 = \<lparr>base_addr = 0, base_size = 0x2000, mem = Ptr_mem_obj,
           mem_obj = \<lparr>mem_offset = 0, mem_size = 2, mem_memtype = 0, mem_page_shift = 12,
                      mem_regions = [\<lparr>node_type = 12, node_offset = 0, node_length = 2\<rparr>]\<rparr>,
           ext = Dma_obj 0xc0000000 0 \<lparr>node_type = 12, node_offset = 0, node_length = 2\<rparr>\<rparr>"

text \<open>
  A kernel with four pages to give and a range at page \<open>0x100\<close>, whose IOMMU rejects
  the third mapping; and the same kernel after the constructor has failed on it.
\<close>

definition kernel_map_fails :: kernel where
  "kernel_map_fails =
     kernel0\<lparr>page_supply := [Some (Page 10), Some (Page 11), Some (Page 12), Some (Page 13)],
             mm_supply := [Some 0x100],
             map_supply := [0, 0, - 12]\<rparr>"

definition kernel_map_failed :: kernel where
  "kernel_map_failed =
     kernel0\<lparr>calls :=
       [Alloc_page (Some (Page 10)), Alloc_page (Some (Page 11)),
        Alloc_page (Some (Page 12)), Alloc_page (Some (Page 13)),
        Mm_head 4 1 (Some \<lparr>node_type = 1, node_offset = 0x100, node_length = 4\<rparr>),
        Iommu_map 0x100000 (Some (Page 10)) 0,
        Iommu_map 0x101000 (Some (Page 11)) 0,
        Iommu_map 0x102000 (Some (Page 12)) (- 12),
        Nvkm_error ''IOMMU mapping failure'',
        Iommu_unmap 0x101000, Iommu_unmap 0x100000,
        Mm_free \<lparr>node_type = 1, node_offset = 0x100, node_length = 4\<rparr>,
        Free_page (Page 10), Free_page (Page 11), Free_page (Page 12), Free_page (Page 13)]\<rparr>"

subsection \<open>Of teardown\<close>


text \<open>The layout of an object.\<close>

fun is_iommu :: "backend \<Rightarrow> bool" where
  "is_iommu (Iommu_obj ps) = True"
| "is_iommu (Dma_obj cpu h rn) = False"

text \<open>
  The object of two pages that \<open>gk20a_instobj_ctor\<close> creates from \<open>kernel_map_fails\<close>
  with the IOMMU, and the kernel after its creation.
\<close>

definition obj_iommu :: gk20a_instobj where
  "obj_iommu =
     \<lparr>base_addr = 0x400100000, base_size = 0x2000, mem = Ptr_mem_obj,
      mem_obj = \<lparr>mem_offset = 0x400100000, mem_size = 2, mem_memtype = 0, mem_page_shift = 12,
                 mem_regions = [\<lparr>node_type = 1, node_offset = 0x400100, node_length = 2\<rparr>]\<rparr>,
      ext = Iommu_obj [Some (Page 10), Some (Page 11)]\<rparr>"

definition kernel_created :: kernel where
  "kernel_created =
     kernel0\<lparr>page_supply := [Some (Page 12), Some (Page 13)],
             map_supply := [- 12],
             calls :=
               [Alloc_page (Some (Page 10)), Alloc_page (Some (Page 11)),
                Mm_head 2 1 (Some \<lparr>node_type = 1, node_offset = 0x100, node_length = 2\<rparr>),
                Iommu_map 0x100000 (Some (Page 10)) 0,
                Iommu_map 0x101000 (Some (Page 11)) 0]\<rparr>"

text \<open>
  The object \<open>gk20a_instobj_ctor\<close> leaves behind when, with the IOMMU, it fails on a
  kernel that has no page to give.
\<close>

definition obj_failed :: gk20a_instobj where
  "obj_failed = new_instobj (Iommu_obj [None])"

text \<open>
  A subsystem whose IOMMU has pages of 64 KiB, the cached window invalid; and
  \<open>kernel_map_fails\<close> after the constructor has failed on it with that subsystem.
\<close>

definition imem_iommu_64k :: gk20a_instmem where
  "imem_iommu_64k = \<lparr>addr = NOT 0, domain = Some 1, iommu_pgshift = 16, attrs = []\<rparr>"

definition kernel_map_failed_64k :: kernel where
  "kernel_map_failed_64k =
     kernel0\<lparr>calls :=
       [Alloc_page (Some (Page 10)), Alloc_page (Some (Page 11)),
        Alloc_page (Some (Page 12)), Alloc_page (Some (Page 13)),
        Mm_head 4 0 (Some \<lparr>node_type = 1, node_offset = 0x100, node_length = 4\<rparr>),
        Iommu_map 0x1000000 (Some (Page 10)) 0,
        Iommu_map 0x1010000 (Some (Page 11)) 0,
        Iommu_map 0x1020000 (Some (Page 12)) (- 12),
        Nvkm_error ''IOMMU mapping failure'',
        Iommu_unmap 0x101F000, Iommu_unmap 0x101E000,
        Mm_free \<lparr>node_type = 1, node_offset = 0x100, node_length = 4\<rparr>,
        Free_page (Page 10), Free_page (Page 11), Free_page (Page 12), Free_page (Page 13)]\<rparr>"

text \<open>
  A kernel whose DMA allocator is going to hand out a buffer whose bus address is a
  multiple of the page size only, and a platform with an IOMMU.
\<close>

definition kernel_dma_unaligned :: kernel where
  "kernel_dma_unaligned = kernel0\<lparr>dma_supply := [(0xc0000000, 0x80001000)]\<rparr>"

definition gpu_with_iommu :: gpu_iommu where
  "gpu_with_iommu = \<lparr>gpu_domain = Some 1, gpu_pgshift = 12\<rparr>"

section \<open>Coherent access: proofs\<close>

subsection \<open>Address arithmetic\<close>

lemma window_base_not_sentinel: "(g::u64) AND 0xffffff00000 \<noteq> NOT 0"
proof
  assume "g AND 0xffffff00000 = NOT 0"
  then have "bit (g AND (0xffffff00000::u64)) 0 = bit (NOT 0 :: u64) 0" by simp
  then show False by (simp add: bit_and_iff)
qed

lemma in_window_bound: "unat ((g::u64) AND 0xfffff) < 0x100000"
proof -
  have "g AND 0xfffff \<le> 0xfffff" by (rule word_and_le1)
  then show ?thesis by (simp add: word_le_nat_alt)
qed

lemma pramin_not_window_register:
  "(ucast ((0x700000::u64) + (g AND 0xfffff)) :: u32) \<noteq> 0x001700"
proof -
  have b: "unat (g AND 0xfffff) < 0x100000" by (rule in_window_bound)
  then have "unat ((0x700000::u64) + (g AND 0xfffff)) = 0x700000 + unat (g AND 0xfffff)"
    by (simp add: unat_word_ariths)
  then have "unat (ucast ((0x700000::u64) + (g AND 0xfffff)) :: u32)
               = 0x700000 + unat (g AND 0xfffff)"
    using b by (simp add: unsigned_ucast_eq take_bit_nat_eq_self)
  then show ?thesis by (auto simp: word_eq_iff_unsigned[where ?'a=nat])
qed

lemma window_mask: "(0xffffff00000::u64) = mask 44 AND NOT (mask 20)"
  by (simp add: mask_eq_exp_minus_1)

lemma window_base_below_2p44:
  assumes "(g::u64) < 2 ^ 44"
  shows "g AND 0xffffff00000 = g AND NOT (window_size - 1)"
proof -
  have "g AND mask 44 = g" using assms by (simp add: less_mask_eq)
  moreover have "window_size - 1 = (mask 20 :: u64)"
    by (simp add: window_size_def mask_eq_exp_minus_1)
  ultimately show ?thesis by (simp add: window_mask and.assoc[symmetric])
qed

lemma in_window_eq: "(g::u64) AND 0xfffff = g AND (window_size - 1)"
  by (simp add: window_size_def)

subsection \<open>One access\<close>

lemma rd32_effect_eq:
  "mem node = Ptr_mem_obj \<Longrightarrow>
   rd32_effect imem device node off =
     Inr ((mem_offset (mem_obj node) + off) AND 0xffffff00000,
          (if addr imem = (mem_offset (mem_obj node) + off) AND 0xffffff00000 then []
           else [Wr32 0x001700
                   (ucast (drop_bit 16 ((mem_offset (mem_obj node) + off) AND 0xffffff00000)))])
          @ [Rd32 (ucast (0x700000 + ((mem_offset (mem_obj node) + off) AND 0xfffff)))])"
  by (simp add: rd32_effect_def gk20a_instobj_rd32_def repoint_def nvkm_wr32_def nvkm_rd32_def
      issued_def Let_def)

lemma wr32_effect_eq:
  "mem node = Ptr_mem_obj \<Longrightarrow>
   wr32_effect imem device node off v =
     Inr ((mem_offset (mem_obj node) + off) AND 0xffffff00000,
          (if addr imem = (mem_offset (mem_obj node) + off) AND 0xffffff00000 then []
           else [Wr32 0x001700
                   (ucast (drop_bit 16 ((mem_offset (mem_obj node) + off) AND 0xffffff00000)))])
          @ [Wr32 (ucast (0x700000 + ((mem_offset (mem_obj node) + off) AND 0xfffff))) v])"
  by (simp add: wr32_effect_def gk20a_instobj_wr32_def repoint_def nvkm_wr32_def issued_def
      Let_def)

lemma wr32_then_rd32_eq:
  "mem node = Ptr_mem_obj \<Longrightarrow> wr32_then_rd32 imem device node off v = Inr v"
  by (simp add: wr32_then_rd32_def gk20a_instobj_wr32_def gk20a_instobj_rd32_def repoint_def
      nvkm_wr32_def nvkm_rd32_def Let_def)

lemma ctor_created:
  "gk20a_instobj_ctor imem c sz al k = (0, Some node, k') \<Longrightarrow> mem node = Ptr_mem_obj"
  by (auto simp: gk20a_instobj_ctor_def Let_def split: prod.splits option.splits if_splits)

lemma ctor_kernel_dma:
  "gk20a_instobj_ctor imem_dma 0 0x2000 0x1000 kernel_dma
     = (0, Some obj0, kernel0\<lparr>calls := [Dma_alloc 0x2000 0xc0000000 0]\<rparr>)"
  by (simp add: gk20a_instobj_ctor_def gk20a_instobj_ctor_dma_def imem_dma_def kernel_dma_def
      kernel0_def obj0_def roundup_def PAGE_SIZE_def PAGE_SHIFT_def dma_alloc_attrs_def
      log_call_def new_instobj_def Let_def)

text \<open>
  C3. For every created instance object and every byte offset, \<open>write32(o, v)\<close> followed
  immediately by \<open>read32(o)\<close> returns \<open>v\<close>, the register interface being a store
  addressed by the register offsets the code computes. A created object is one that
  \<open>gk20a_instobj_ctor\<close> returned with result 0; the subsystem and the device may be in
  any state when the pair of accesses starts.
\<close>

theorem write_read_roundtrip:
  assumes "gk20a_instobj_ctor imem0 create_ret args_size args_align k = (0, Some node, k')"
  shows "wr32_then_rd32 imem device node off v = Inr v"
  using ctor_created[OF assms] by (rule wr32_then_rd32_eq)

theorem write_read_roundtrip_witness:
  "gk20a_instobj_ctor imem_dma 0 0x2000 0x1000 kernel_dma
     = (0, Some obj0, kernel0\<lparr>calls := [Dma_alloc 0x2000 0xc0000000 0]\<rparr>)
   \<and> wr32_then_rd32 imem_dma device0 obj0 0x1004 0xdeadbeef = Inr 0xdeadbeef"
  using write_read_roundtrip[where imem = imem_dma and device = device0 and off = "0x1004"
      and v = "0xdeadbeef", OF ctor_kernel_dma]
    ctor_kernel_dma
  by simp

text \<open>
  C4, as amended. For every GPU offset \<open>g\<close> below \<open>2^44\<close> (the offset of the object plus
  the offset of the access), \<open>read32\<close> and \<open>write32\<close> leave the cached window at
  \<open>g & ~(window_size - 1)\<close>, with \<open>window_size\<close> = \<open>0x100000\<close>; they issue exactly one
  write to the window register, of that base shifted right by 16, when the base differs
  from the cached window, and none when it is equal; and then exactly one raw 32-bit
  access, at register \<open>0x700000\<close> plus the in-window offset \<open>g & (window_size - 1)\<close>.
\<close>

theorem window_split:
  assumes "mem node = Ptr_mem_obj"
    and "mem_offset (mem_obj node) + off = g"
    and "g < 2 ^ 44"
  shows "rd32_effect imem device node off =
           Inr (g AND NOT (window_size - 1),
                (if addr imem = g AND NOT (window_size - 1) then []
                 else [Wr32 0x001700 (ucast (drop_bit 16 (g AND NOT (window_size - 1))))])
                @ [Rd32 (ucast (0x700000 + (g AND (window_size - 1))))])
       \<and> wr32_effect imem device node off v =
           Inr (g AND NOT (window_size - 1),
                (if addr imem = g AND NOT (window_size - 1) then []
                 else [Wr32 0x001700 (ucast (drop_bit 16 (g AND NOT (window_size - 1))))])
                @ [Wr32 (ucast (0x700000 + (g AND (window_size - 1)))) v])"
proof -
  have b: "g AND 0xffffff00000 = g AND NOT (window_size - 1)"
    using assms(3) by (rule window_base_below_2p44)
  have a: "g AND 0xfffff = g AND (window_size - 1)"
    by (rule in_window_eq)
  show ?thesis
    using rd32_effect_eq[OF assms(1), of imem device off]
      wr32_effect_eq[OF assms(1), of imem device off v]
    unfolding assms(2) b a by simp
qed

theorem window_split_witness:
  "rd32_effect imem_dma device0 obj0 0x101004 =
     Inr (0x100000, [Wr32 0x001700 0x10, Rd32 0x701004])
   \<and> wr32_effect (imem_dma\<lparr>addr := 0x100000\<rparr>) device0 obj0 0x101004 5 =
     Inr (0x100000, [Wr32 0x701004 5])"
proof -
  have m: "mem obj0 = Ptr_mem_obj" by (simp add: obj0_def)
  have g: "mem_offset (mem_obj obj0) + 0x101004 = (0x101004::u64)" by (simp add: obj0_def)
  have l: "(0x101004::u64) < 2 ^ 44" by simp
  show ?thesis
    using window_split[where imem = imem_dma and device = device0 and v = 5, OF m g l]
      window_split[where imem = "imem_dma\<lparr>addr := 0x100000\<rparr>" and device = device0 and v = 5,
        OF m g l]
    by (simp add: window_size_def imem_dma_def)
qed

theorem window_split_counterexample:
  "rd32_effect imem_dma device0 obj0 0x100000000000 = Inr (0, [Wr32 0x001700 0, Rd32 0x700000])
   \<and> (mem_offset (mem_obj obj0) + 0x100000000000) AND NOT (window_size - 1) = 0x100000000000"
  by (simp add: rd32_effect_def gk20a_instobj_rd32_def repoint_def nvkm_wr32_def nvkm_rd32_def
      issued_def Let_def imem_dma_def device0_def obj0_def window_size_def)

text \<open>
  C7. \<open>gk20a_instmem_fini\<close> sets the cached window to the sentinel \<open>~0ULL\<close>; no window
  base that \<open>read32\<close> or \<open>write32\<close> computes equals the sentinel; so the first access
  after it, a read or a write to any created object at any offset, issues the repoint
  before its raw access.
\<close>

theorem fini_invalidates:
  assumes "mem node = Ptr_mem_obj"
    and "(mem_offset (mem_obj node) + off) AND 0xffffff00000 = b"
  shows "addr (snd (gk20a_instmem_fini imem fini_ret)) = NOT 0
       \<and> b \<noteq> NOT 0
       \<and> rd32_effect (snd (gk20a_instmem_fini imem fini_ret)) device node off =
           Inr (b, [Wr32 0x001700 (ucast (drop_bit 16 b)),
                    Rd32 (ucast (0x700000 + ((mem_offset (mem_obj node) + off) AND 0xfffff)))])
       \<and> wr32_effect (snd (gk20a_instmem_fini imem fini_ret)) device node off v =
           Inr (b, [Wr32 0x001700 (ucast (drop_bit 16 b)),
                    Wr32 (ucast (0x700000 + ((mem_offset (mem_obj node) + off) AND 0xfffff))) v])"
proof -
  have s: "addr (snd (gk20a_instmem_fini imem fini_ret)) = NOT 0"
    by (simp add: gk20a_instmem_fini_def)
  have n: "b \<noteq> NOT 0"
    using window_base_not_sentinel[of "mem_offset (mem_obj node) + off"] assms(2) by simp
  show ?thesis
    using rd32_effect_eq[OF assms(1), of "snd (gk20a_instmem_fini imem fini_ret)" device off]
      wr32_effect_eq[OF assms(1), of "snd (gk20a_instmem_fini imem fini_ret)" device off v]
      s n
    unfolding assms(2) by simp
qed

theorem fini_invalidates_witness:
  "addr (snd (gk20a_instmem_fini (imem_dma\<lparr>addr := 0\<rparr>) 0)) = NOT 0
   \<and> rd32_effect (snd (gk20a_instmem_fini (imem_dma\<lparr>addr := 0\<rparr>) 0)) device0 obj0 8 =
       Inr (0, [Wr32 0x001700 0, Rd32 0x700008])
   \<and> wr32_effect (snd (gk20a_instmem_fini (imem_dma\<lparr>addr := 0\<rparr>) 0)) device0 obj0 8 1 =
       Inr (0, [Wr32 0x001700 0, Wr32 0x700008 1])"
proof -
  have m: "mem obj0 = Ptr_mem_obj" by (simp add: obj0_def)
  have b: "(mem_offset (mem_obj obj0) + 8) AND 0xffffff00000 = (0::u64)" by (simp add: obj0_def)
  show ?thesis
    using fini_invalidates[where imem = "imem_dma\<lparr>addr := 0\<rparr>" and fini_ret = 0
        and device = device0 and v = 1, OF m b]
    by (simp add: obj0_def)
qed

subsection \<open>Traces\<close>

lemma rd32_step:
  assumes "mem node = Ptr_mem_obj"
  shows "\<exists>data imem1 dev1 xs. gk20a_instobj_rd32 imem device node off = Inr (data, imem1, dev1)
           \<and> addr imem1 = (mem_offset (mem_obj node) + off) AND 0xffffff00000
           \<and> mmio dev1 = mmio device @ xs
           \<and> repoints xs = (if addr imem = (mem_offset (mem_obj node) + off) AND 0xffffff00000 then 0 else 1)"
  using assms
  by (simp add: gk20a_instobj_rd32_def repoint_def nvkm_wr32_def nvkm_rd32_def Let_def repoints_def)

lemma wr32_step:
  assumes "mem node = Ptr_mem_obj"
  shows "\<exists>imem1 dev1 xs. gk20a_instobj_wr32 imem device node off v = Inr (imem1, dev1)
           \<and> addr imem1 = (mem_offset (mem_obj node) + off) AND 0xffffff00000
           \<and> mmio dev1 = mmio device @ xs
           \<and> repoints xs = (if addr imem = (mem_offset (mem_obj node) + off) AND 0xffffff00000 then 0 else 1)"
  using assms pramin_not_window_register[of "mem_offset (mem_obj node) + off"]
  by (simp add: gk20a_instobj_wr32_def repoint_def nvkm_wr32_def Let_def repoints_def)

lemma repoints_append: "repoints (xs @ ys) = repoints xs + repoints ys"
  by (simp add: repoints_def)

lemma run_accesses_misses:
  "list_all created as \<Longrightarrow>
   \<exists>imem' device' xs. run_accesses imem device as = Inr (imem', device')
      \<and> mmio device' = mmio device @ xs
      \<and> repoints xs = misses (addr imem) (map gpu_offset as)"
proof (induction as arbitrary: imem device)
  case Nil
  then show ?case by (simp add: repoints_def)
next
  case (Cons a as)
  show ?case
  proof (cases a)
    case (Read32 node off)
    with Cons.prems have m: "mem node = Ptr_mem_obj" and rest: "list_all created as" by simp_all
    from rd32_step[OF m, of imem device off] obtain data imem1 dev1 xs where
      s: "gk20a_instobj_rd32 imem device node off = Inr (data, imem1, dev1)"
         "addr imem1 = (mem_offset (mem_obj node) + off) AND 0xffffff00000"
         "mmio dev1 = mmio device @ xs"
         "repoints xs = (if addr imem = (mem_offset (mem_obj node) + off) AND 0xffffff00000 then 0 else 1)"
      by blast
    from Cons.IH[OF rest, of imem1 dev1] obtain imem' device' ys where
      r: "run_accesses imem1 dev1 as = Inr (imem', device')" "mmio device' = mmio dev1 @ ys"
         "repoints ys = misses (addr imem1) (map gpu_offset as)"
      by blast
    show ?thesis
      using s r Read32 by (simp add: repoints_append)
  next
    case (Write32 node off v)
    with Cons.prems have m: "mem node = Ptr_mem_obj" and rest: "list_all created as" by simp_all
    from wr32_step[OF m, of imem device off v] obtain imem1 dev1 xs where
      s: "gk20a_instobj_wr32 imem device node off v = Inr (imem1, dev1)"
         "addr imem1 = (mem_offset (mem_obj node) + off) AND 0xffffff00000"
         "mmio dev1 = mmio device @ xs"
         "repoints xs = (if addr imem = (mem_offset (mem_obj node) + off) AND 0xffffff00000 then 0 else 1)"
      by blast
    from Cons.IH[OF rest, of imem1 dev1] obtain imem' device' ys where
      r: "run_accesses imem1 dev1 as = Inr (imem', device')" "mmio device' = mmio dev1 @ ys"
         "repoints ys = misses (addr imem1) (map gpu_offset as)"
      by blast
    show ?thesis
      using s r Write32 by (simp add: repoints_append)
  qed
qed

lemma misses_crossings:
  "list_all (\<lambda>g. g < 2 ^ 44) (g # gs) \<Longrightarrow>
   misses c (g # gs) = (if c = g AND 0xffffff00000 then 0 else 1) + crossings window_size (g # gs)"
proof (induction gs arbitrary: c g)
  case Nil
  then show ?case by simp
next
  case (Cons h gs)
  then have "g < 2 ^ 44" "h < 2 ^ 44" "list_all (\<lambda>g. g < 2 ^ 44) (h # gs)" by simp_all
  then show ?case
    using Cons.IH[of h "g AND 0xffffff00000"]
    by (simp add: window_base_below_2p44)
qed

lemma misses_spec:
  "list_all (\<lambda>g. g < 2 ^ 44) gs \<Longrightarrow> misses (NOT 0) gs = spec_repoints window_size gs"
proof (cases gs)
  case Nil
  then show ?thesis by (simp add: spec_repoints_def)
next
  case (Cons g gs')
  assume "list_all (\<lambda>g. g < 2 ^ 44) gs"
  then show ?thesis
    using misses_crossings[of g gs' "NOT 0"] window_base_not_sentinel[of g] Cons
    by (simp add: spec_repoints_def del: misses.simps crossings.simps)
qed

text \<open>
  C5, as amended. For every finite trace of \<open>read32\<close> and \<open>write32\<close> calls on created
  objects, at GPU offsets below \<open>2^44\<close>, that starts from an invalidated cache, the number
  of writes to the window register is the formula of the specification with the 1 MiB
  aperture window in the place of the page: none for the empty trace, otherwise one for
  the first access and one more for each pair of consecutive accesses that lie in different
  windows. In particular a trace that stays within one window issues exactly one repoint.
\<close>

theorem repoint_count:
  assumes "addr imem = NOT 0"
    and "list_all created as"
    and "list_all (\<lambda>a. gpu_offset a < 2 ^ 44) as"
  shows "trace_repoints imem device as = Inr (spec_repoints window_size (map gpu_offset as))"
proof -
  from run_accesses_misses[OF assms(2), of imem device] obtain imem' device' xs where
    r: "run_accesses imem device as = Inr (imem', device')" "mmio device' = mmio device @ xs"
       "repoints xs = misses (addr imem) (map gpu_offset as)"
    by blast
  have "list_all (\<lambda>g. g < 2 ^ 44) (map gpu_offset as)"
    using assms(3) by (simp add: list_all_iff)
  then have "misses (NOT 0) (map gpu_offset as) = spec_repoints window_size (map gpu_offset as)"
    by (rule misses_spec)
  then show ?thesis
    using r assms(1) by (simp add: trace_repoints_def issued_def)
qed

theorem repoint_count_witness:
  "trace_repoints imem_dma device0 [Read32 obj0 0, Write32 obj0 0x1004 7, Read32 obj0 0x100000, Read32 obj0 0x100ffc] = Inr 2"
proof -
  have "addr imem_dma = NOT 0" by (simp add: imem_dma_def)
  moreover have "list_all created [Read32 obj0 0, Write32 obj0 0x1004 7, Read32 obj0 0x100000, Read32 obj0 0x100ffc]"
    by (simp add: obj0_def)
  moreover have "list_all (\<lambda>a. gpu_offset a < 2 ^ 44) [Read32 obj0 0, Write32 obj0 0x1004 7, Read32 obj0 0x100000, Read32 obj0 0x100ffc]"
    by (simp add: obj0_def)
  ultimately have "trace_repoints imem_dma device0 [Read32 obj0 0, Write32 obj0 0x1004 7, Read32 obj0 0x100000, Read32 obj0 0x100ffc]
     = Inr (spec_repoints window_size (map gpu_offset [Read32 obj0 0, Write32 obj0 0x1004 7, Read32 obj0 0x100000, Read32 obj0 0x100ffc]))"
    by (rule repoint_count)
  then show ?thesis by (simp add: spec_repoints_def window_size_def obj0_def)
qed

text \<open>
  The formula fails for pages: two reads one page apart, in one window, issue one repoint
  where the formula counts a crossing; and it fails beyond \<open>2^44\<close>, where the code drops
  the upper bits of the window base.
\<close>

theorem repoint_count_counterexample:
  "trace_repoints imem_dma device0 [Read32 obj0 0, Read32 obj0 0x1000] = Inr 1
   \<and> spec_repoints 0x1000 (map gpu_offset [Read32 obj0 0, Read32 obj0 0x1000]) = 2
   \<and> trace_repoints imem_dma device0 [Read32 obj0 0, Read32 obj0 0x100000000000] = Inr 1
   \<and> spec_repoints window_size (map gpu_offset [Read32 obj0 0, Read32 obj0 0x100000000000]) = 2"
  by (simp add: trace_repoints_def gk20a_instobj_rd32_def repoint_def nvkm_wr32_def nvkm_rd32_def
      imem_dma_def device0_def obj0_def issued_def repoints_def spec_repoints_def window_size_def Let_def)

section \<open>Allocation and teardown: proofs\<close>

subsection \<open>The log\<close>

lemma calls_log_call [simp]: "calls (log_call c k) = calls k @ [c]"
  by (simp add: log_call_def)

lemma supplies_log_call [simp]:
  "page_supply (log_call c k) = page_supply k"
  "mm_supply (log_call c k) = mm_supply k"
  "map_supply (log_call c k) = map_supply k"
  "dma_supply (log_call c k) = dma_supply k"
  by (simp_all add: log_call_def)

lemma new_calls_append: "calls k' = calls k @ cs \<Longrightarrow> new_calls k k' = cs"
  by (simp add: new_calls_def)

lemma acquired_simps [simp]:
  "acquired [] = []"
  "acquired (c # cs) = acquires c @ acquired cs"
  "acquired (cs @ ds) = acquired cs @ acquired ds"
  by (simp_all add: acquired_def)

lemma released_simps [simp]:
  "released [] = []"
  "released (c # cs) = releases c @ released cs"
  "released (cs @ ds) = released cs @ released ds"
  by (simp_all add: released_def)

lemma kinds_append [simp]:
  "pages (rs @ ts) = pages rs @ pages ts"
  "iovas (rs @ ts) = iovas rs @ iovas ts"
  "ranges (rs @ ts) = ranges rs @ ranges ts"
  "buffers (rs @ ts) = buffers rs @ buffers ts"
  by (simp_all add: pages_def iovas_def ranges_def buffers_def)

lemma kinds_Nil [simp]: "pages [] = []" "iovas [] = []" "ranges [] = []" "buffers [] = []"
  by (simp_all add: pages_def iovas_def ranges_def buffers_def)

lemma kinds_Cons [simp]:
  "pages (x # rs) = page_of x @ pages rs"
  "iovas (x # rs) = iova_of x @ iovas rs"
  "ranges (x # rs) = range_of x @ ranges rs"
  "buffers (x # rs) = buffer_of x @ buffers rs"
  by (simp_all add: pages_def iovas_def ranges_def buffers_def)

lemma kinds_R_page [simp]:
  "pages (map R_page ps) = ps" "iovas (map R_page ps) = []"
  "ranges (map R_page ps) = []" "buffers (map R_page ps) = []"
  by (induction ps) simp_all

lemma kinds_R_iova [simp]:
  "pages (map R_iova as) = []" "iovas (map R_iova as) = as"
  "ranges (map R_iova as) = []" "buffers (map R_iova as) = []"
  by (induction as) simp_all

lemma kinds_R_iova_comp [simp]:
  "pages (map (R_iova \<circ> f) xs) = []" "iovas (map (R_iova \<circ> f) xs) = map f xs"
  "ranges (map (R_iova \<circ> f) xs) = []" "buffers (map (R_iova \<circ> f) xs) = []"
  by (induction xs) simp_all

lemma acquired_frees [simp]: "acquired (map Free_page ps) = []"
  by (induction ps) simp_all

lemma released_frees [simp]: "released (map Free_page ps) = map R_page ps"
  by (induction ps) simp_all

lemma acquired_unmaps [simp]: "acquired (map Iommu_unmap as) = []"
  by (induction as) simp_all

lemma released_unmaps [simp]: "released (map Iommu_unmap as) = map R_iova as"
  by (induction as) simp_all

lemma no_failure_frees [simp]: "\<not> list_ex step_failed (map Free_page ps)"
  by (induction ps) simp_all

lemma no_failure_unmaps [simp]: "\<not> list_ex step_failed (map Iommu_unmap as)"
  by (induction as) simp_all

subsection \<open>The loops of the constructor\<close>

lemma free_pages_calls:
  "free_pages (map Some ps @ replicate j None) k = k\<lparr>calls := calls k @ map Free_page ps\<rparr>"
proof (induction ps arbitrary: k)
  case Nil
  then show ?case by (cases j) simp_all
next
  case (Cons p ps)
  then show ?case by (simp add: free_page_def log_call_def)
qed

lemma unmap_mapped_calls:
  "unmap_mapped i offset k = k\<lparr>calls := calls k @ map Iommu_unmap (unwind_addrs i offset)\<rparr>"
  by (induction i arbitrary: offset k) (simp_all add: iommu_unmap_def log_call_def)

lemma iova_step: "iova PAGE_SHIFT off (Suc j) - PAGE_SIZE = iova PAGE_SHIFT off j"
  by (simp add: iova_def PAGE_SIZE_def push_bit_eq_mult algebra_simps)

lemma unwind_rev: "unwind_addrs f (iova PAGE_SHIFT off f) = rev (map (iova PAGE_SHIFT off) [0..<f])"
  by (induction f) (simp_all add: iova_step)

lemma alloc_pages_general:
  "alloc_pages m (length done) (map Some done @ replicate m None) k = (ok, arr, k') \<Longrightarrow>
   \<exists>new j cs. arr = map Some (done @ new) @ replicate j None
     \<and> length new + j = m
     \<and> calls k' = calls k @ cs
     \<and> acquired cs = map R_page new \<and> released cs = []
     \<and> (ok \<longleftrightarrow> j = 0) \<and> (list_ex step_failed cs \<longleftrightarrow> \<not> ok)"
proof (induction m arbitrary: "done" k)
  case 0
  then show ?case by auto
next
  case (Suc m)
  show ?case
  proof (cases "alloc_page k")
    case (Pair po k1)
    have c1: "calls k1 = calls k @ [Alloc_page po]"
      using Pair by (auto simp: alloc_page_def split: list.splits)
    show ?thesis
    proof (cases po)
      case None
      with Suc.prems Pair have "ok = False" "arr = map Some done @ replicate (Suc m) None" "k' = k1"
        by simp_all
      with c1 None show ?thesis
        by (intro exI[of _ "[]"] exI[of _ "Suc m"] exI[of _ "[Alloc_page None]"]) simp
    next
      case (Some p)
      from Suc.prems Pair Some
      have "alloc_pages m (Suc (length done)) (map Some done @ Some p # replicate m None) k1
              = (ok, arr, k')"
        by (simp add: list_update_append)
      with Suc.IH[of "done @ [p]" k1]
      have "\<exists>new j cs. arr = map Some done @ Some p # map Some new @ replicate j None
              \<and> length new + j = m \<and> calls k' = calls k1 @ cs
              \<and> acquired cs = map R_page new \<and> released cs = []
              \<and> (ok \<longleftrightarrow> j = 0) \<and> (list_ex step_failed cs \<longleftrightarrow> \<not> ok)"
        by simp
      then obtain new j cs where
        h: "arr = map Some done @ Some p # map Some new @ replicate j None" "length new + j = m"
           "calls k' = calls k1 @ cs" "acquired cs = map R_page new" "released cs = []"
           "ok \<longleftrightarrow> j = 0" "list_ex step_failed cs \<longleftrightarrow> \<not> ok"
        by blast
      show ?thesis
        using h c1 Some
        by (intro exI[of _ "p # new"] exI[of _ j] exI[of _ "Alloc_page (Some p) # cs"]) simp
    qed
  qed
qed

lemma map_pages_general:
  "map_pages m s off arr i k = (res, k') \<Longrightarrow>
   \<exists>cnt cs. cnt \<le> m
     \<and> calls k' = calls k @ cs
     \<and> acquired cs = map R_iova (map (iova s off) [i..<i + cnt])
     \<and> released cs = (case res of None \<Rightarrow> []
                       | Some ret \<Rightarrow> map R_iova (unwind_addrs (i + cnt) (iova s off (i + cnt))))
     \<and> (res = None \<longrightarrow> cnt = m)
     \<and> (\<forall>ret. res = Some ret \<longrightarrow> ret < 0)
     \<and> (list_ex step_failed cs \<longleftrightarrow> res \<noteq> None)"
proof (induction m arbitrary: i k)
  case 0
  then show ?case by auto
next
  case (Suc m)
  show ?case
  proof (cases "iommu_map (iova s off i) (arr ! i) k")
    case (Pair ret k1)
    have c1: "calls k1 = calls k @ [Iommu_map (iova s off i) (arr ! i) ret]"
      using Pair by (auto simp: iommu_map_def split: list.splits)
    show ?thesis
    proof (cases "ret < 0")
      case True
      with Suc.prems Pair have r: "res = Some ret"
        and k': "k' = unmap_mapped i (iova s off i) (nvkm_error ''IOMMU mapping failure'' k1)"
        by (simp_all add: iova_def Let_def)
      show ?thesis
        using True r c1 unfolding k' unmap_mapped_calls
        by (intro exI[of _ 0]
            exI[of _ "[Iommu_map (iova s off i) (arr ! i) ret, Nvkm_error ''IOMMU mapping failure'']
                       @ map Iommu_unmap (unwind_addrs i (iova s off i))"])
          (simp add: nvkm_error_def)
    next
      case False
      with Suc.prems Pair have "map_pages m s off arr (Suc i) k1 = (res, k')"
        by (simp add: iova_def Let_def)
      from Suc.IH[OF this] obtain cnt cs where
        h: "cnt \<le> m" "calls k' = calls k1 @ cs"
           "acquired cs = map R_iova (map (iova s off) [Suc i..<Suc i + cnt])"
           "released cs = (case res of None \<Rightarrow> []
                       | Some ret \<Rightarrow> map R_iova (unwind_addrs (Suc i + cnt) (iova s off (Suc i + cnt))))"
           "res = None \<longrightarrow> cnt = m" "\<forall>ret. res = Some ret \<longrightarrow> ret < 0"
           "list_ex step_failed cs \<longleftrightarrow> res \<noteq> None"
        by blast
      show ?thesis
        using h c1 False
        by (intro exI[of _ "Suc cnt"] exI[of _ "Iommu_map (iova s off i) (arr ! i) ret # cs"])
          (simp del: upt_Suc add: upt_conv_Cons cong: option.case_cong)
    qed
  qed
qed

lemma length_unwind_addrs [simp]: "length (unwind_addrs n x) = n"
  by (induction n arbitrary: x) simp_all

lemma free_pages_all: "free_pages (map Some ps) k = k\<lparr>calls := calls k @ map Free_page ps\<rparr>"
  using free_pages_calls[of ps 0 k] by simp

lemma errno_nonzero [simp]: "ENOMEM \<noteq> 0" "ENOSPC \<noteq> 0" "0 < ENOMEM" "0 < ENOSPC"
  by (simp_all add: ENOMEM_def ENOSPC_def)

lemma nvkm_mm_head_cases:
  assumes "nvkm_mm_head n a k = (res, k1)"
  shows "(res = Inl (- ENOSPC) \<and> calls k1 = calls k @ [Mm_head n a None])
       \<or> (\<exists>off. res = Inr \<lparr>node_type = 1, node_offset = off, node_length = n\<rparr>
             \<and> calls k1 = calls k @ [Mm_head n a (Some \<lparr>node_type = 1, node_offset = off, node_length = n\<rparr>)])"
  using assms by (auto simp: nvkm_mm_head_def Let_def split: list.splits option.splits)

text \<open>
  Whatever the kernel answers, a constructor that returns an error has released what it
  had acquired.
\<close>

lemma ctor_iommu_unwinds:
  assumes run: "gk20a_instobj_ctor_iommu imem create_ret npages align k = (ret, node, k')"
  shows "\<exists>cs. calls k' = calls k @ cs
     \<and> (list_ex step_failed cs \<longrightarrow> ret \<noteq> 0)
     \<and> (ret \<noteq> 0 \<longrightarrow>
          pages (released cs) = pages (acquired cs)
        \<and> length (iovas (released cs)) = length (iovas (acquired cs))
        \<and> (iommu_pgshift imem = PAGE_SHIFT \<longrightarrow>
             iovas (released cs) = rev (iovas (acquired cs)))
        \<and> ranges (released cs) = ranges (acquired cs)
        \<and> buffers (acquired cs) = [] \<and> buffers (released cs) = [])"
proof (cases "create_ret = 0")
  case False
  with run have "ret = create_ret" "k' = k" by (simp_all add: gk20a_instobj_ctor_iommu_def)
  with False show ?thesis by (intro exI[of _ "[]"]) simp
next
  case True
  obtain ok arr k1 where al: "alloc_pages (unat npages) 0 (replicate (unat npages) None) k = (ok, arr, k1)"
    by (metis prod_cases3)
  from alloc_pages_general[of "unat npages" "[]" k ok arr k1] al
  obtain new j cs1 where
    a: "arr = map Some new @ replicate j None" "calls k1 = calls k @ cs1"
       "acquired cs1 = map R_page new" "released cs1 = []"
       "ok \<longleftrightarrow> j = 0" "list_ex step_failed cs1 \<longleftrightarrow> \<not> ok"
    by auto
  show ?thesis
  proof (cases ok)
    case False
    with run True al have "ret = - ENOMEM" "k' = free_pages arr k1"
      by (simp_all add: gk20a_instobj_ctor_iommu_def)
    then show ?thesis
      using a unfolding a(1) free_pages_calls
      by (intro exI[of _ "cs1 @ map Free_page new"]) simp
  next
    case ok: True
    then have arr: "arr = map Some new" using a by simp
    obtain mres k2 where mm: "nvkm_mm_head npages (drop_bit (iommu_pgshift imem) align) k1 = (mres, k2)"
      by (metis surj_pair)
    from nvkm_mm_head_cases[OF mm] show ?thesis
    proof
      assume f: "mres = Inl (- ENOSPC) \<and> calls k2 = calls k1 @ [Mm_head npages (drop_bit (iommu_pgshift imem) align) None]"
      with run True al ok mm have "ret = - ENOSPC"
        "k' = free_pages arr (nvkm_error ''virtual space is full!'' k2)"
        by (simp_all add: gk20a_instobj_ctor_iommu_def)
      then show ?thesis
        using a f unfolding arr free_pages_all
        by (intro exI[of _ "cs1 @ [Mm_head npages (drop_bit (iommu_pgshift imem) align) None,
                                   Nvkm_error ''virtual space is full!''] @ map Free_page new"])
          (simp add: nvkm_error_def)
    next
      assume "\<exists>off. mres = Inr \<lparr>node_type = 1, node_offset = off, node_length = npages\<rparr>
             \<and> calls k2 = calls k1 @ [Mm_head npages (drop_bit (iommu_pgshift imem) align)
                 (Some \<lparr>node_type = 1, node_offset = off, node_length = npages\<rparr>)]"
      then obtain off where
        s: "mres = Inr \<lparr>node_type = 1, node_offset = off, node_length = npages\<rparr>"
           "calls k2 = calls k1 @ [Mm_head npages (drop_bit (iommu_pgshift imem) align)
                 (Some \<lparr>node_type = 1, node_offset = off, node_length = npages\<rparr>)]"
        by blast
      obtain res k3 where mp: "map_pages (unat npages) (iommu_pgshift imem) off arr 0 k2 = (res, k3)"
        by (metis surj_pair)
      from map_pages_general[OF mp] obtain cnt cs3 where
        m: "calls k3 = calls k2 @ cs3"
           "acquired cs3 = map R_iova (map (iova (iommu_pgshift imem) off) [0..<cnt])"
           "released cs3 = (case res of None \<Rightarrow> []
                       | Some ret \<Rightarrow> map R_iova (unwind_addrs cnt (iova (iommu_pgshift imem) off cnt)))"
           "\<forall>ret. res = Some ret \<longrightarrow> ret < 0"
           "list_ex step_failed cs3 \<longleftrightarrow> res \<noteq> None"
        by auto
      show ?thesis
      proof (cases res)
        case None
        with run True al ok mm s mp have "ret = 0" "k' = k3"
          by (simp_all add: gk20a_instobj_ctor_iommu_def Let_def)
        then show ?thesis
          using a s m None ok
          by (intro exI[of _ "cs1 @ [Mm_head npages (drop_bit (iommu_pgshift imem) align)
                 (Some \<lparr>node_type = 1, node_offset = off, node_length = npages\<rparr>)] @ cs3"])
            simp
      next
        case (Some e)
        with run True al ok mm s mp have "ret = e"
          "k' = free_pages arr (nvkm_mm_free \<lparr>node_type = 1, node_offset = off, node_length = npages\<rparr> k3)"
          by (simp_all add: gk20a_instobj_ctor_iommu_def Let_def)
        moreover have "e < 0" using m Some by simp
        ultimately show ?thesis
          using a s m Some unfolding arr free_pages_all
          by (intro exI[of _ "cs1 @ [Mm_head npages (drop_bit (iommu_pgshift imem) align)
                 (Some \<lparr>node_type = 1, node_offset = off, node_length = npages\<rparr>)] @ cs3
                 @ [Mm_free \<lparr>node_type = 1, node_offset = off, node_length = npages\<rparr>]
                 @ map Free_page new"])
            (simp add: nvkm_mm_free_def unwind_rev)
      qed
    qed
  qed
qed

lemma ctor_dma_unwinds:
  assumes run: "gk20a_instobj_ctor_dma imem create_ret npages align k = (ret, node, k')"
  shows "\<exists>cs. calls k' = calls k @ cs
     \<and> (list_ex step_failed cs \<longrightarrow> ret \<noteq> 0)
     \<and> (ret \<noteq> 0 \<longrightarrow>
          pages (released cs) = pages (acquired cs)
        \<and> length (iovas (released cs)) = length (iovas (acquired cs))
        \<and> (iommu_pgshift imem = PAGE_SHIFT \<longrightarrow>
             iovas (released cs) = rev (iovas (acquired cs)))
        \<and> ranges (released cs) = ranges (acquired cs)
        \<and> buffers (acquired cs) = [] \<and> buffers (released cs) = [])"
proof (cases "create_ret = 0")
  case False
  with run have "ret = create_ret" "k' = k" by (simp_all add: gk20a_instobj_ctor_dma_def)
  with False show ?thesis by (intro exI[of _ "[]"]) simp
next
  case True
  obtain cpu h k1 where d: "dma_alloc_attrs (push_bit PAGE_SHIFT npages) k = (cpu, h, k1)"
    by (metis prod_cases3)
  then have c1: "calls k1 = calls k @ [Dma_alloc (push_bit PAGE_SHIFT npages) cpu h]"
    by (auto simp: dma_alloc_attrs_def split: list.splits)
  show ?thesis
  proof (cases "cpu = 0")
    case z: True
    with run True d have "ret = - ENOMEM" "k' = nvkm_error ''cannot allocate DMA memory'' k1"
      by (simp_all add: gk20a_instobj_ctor_dma_def)
    then show ?thesis using c1 z
      by (intro exI[of _ "[Dma_alloc (push_bit PAGE_SHIFT npages) cpu h,
                           Nvkm_error ''cannot allocate DMA memory'']"])
        (simp add: nvkm_error_def)
  next
    case nz: False
    with run True d have r: "ret = 0"
      and k': "k' = (if h AND ucast (align - 1) \<noteq> 0
                      then nvkm_warn ''memory not aligned as requested'' k1 else k1)"
      by (simp_all add: gk20a_instobj_ctor_dma_def Let_def)
    show ?thesis
    proof (cases "h AND ucast (align - 1) \<noteq> 0")
      case True
      with r k' c1 nz show ?thesis
        by (intro exI[of _ "[Dma_alloc (push_bit PAGE_SHIFT npages) cpu h,
                             Nvkm_warn ''memory not aligned as requested'']"])
          (simp add: nvkm_warn_def)
    next
      case False
      with r k' c1 nz show ?thesis
        by (intro exI[of _ "[Dma_alloc (push_bit PAGE_SHIFT npages) cpu h]"]) simp
    qed
  qed
qed

lemma ctor_result:
  "gk20a_instobj_ctor imem create_ret args_size args_align k = (ret, node, k') \<Longrightarrow>
   \<exists>node0.
     (if domain imem \<noteq> None
      then gk20a_instobj_ctor_iommu imem create_ret
             (drop_bit PAGE_SHIFT (max (roundup args_size PAGE_SIZE) PAGE_SIZE))
             (max (roundup args_align PAGE_SIZE) PAGE_SIZE) k
      else gk20a_instobj_ctor_dma imem create_ret
             (drop_bit PAGE_SHIFT (max (roundup args_size PAGE_SIZE) PAGE_SIZE))
             (max (roundup args_align PAGE_SIZE) PAGE_SIZE) k) = (ret, node0, k')"
  by (auto simp: gk20a_instobj_ctor_def Let_def split: prod.splits option.splits if_splits)

text \<open>
  What holds of every call of \<open>gk20a_instobj_ctor\<close>: if a sub-step fails (a page
  allocation, the reservation of the range, an IOMMU mapping, or the DMA allocation of the
  other backend) it returns an error; and when it returns an error, the pages freed are the
  pages allocated, as many addresses are unmapped as were mapped, the range released is
  the range reserved, and no DMA buffer is held. The unwinding loop steps back by
  \<open>PAGE_SIZE\<close>: the addresses unmapped are the addresses mapped, last mapped first, where
  the page shift of the IOMMU is that of the CPU.
\<close>

lemma create_failure_releases:
  assumes "gk20a_instobj_ctor imem create_ret args_size args_align k = (ret, node, k')"
  shows "calls k' = calls k @ new_calls k k'
     \<and> (list_ex step_failed (new_calls k k') \<longrightarrow> ret \<noteq> 0)
     \<and> (ret \<noteq> 0 \<longrightarrow>
          pages (released (new_calls k k')) = pages (acquired (new_calls k k'))
        \<and> length (iovas (released (new_calls k k'))) = length (iovas (acquired (new_calls k k')))
        \<and> (iommu_pgshift imem = PAGE_SHIFT \<longrightarrow>
             iovas (released (new_calls k k')) = rev (iovas (acquired (new_calls k k'))))
        \<and> ranges (released (new_calls k k')) = ranges (acquired (new_calls k k'))
        \<and> buffers (acquired (new_calls k k')) = []
        \<and> buffers (released (new_calls k k')) = [])"
proof -
  from ctor_result[OF assms(1)] obtain node0 where
    r: "(if domain imem \<noteq> None
      then gk20a_instobj_ctor_iommu imem create_ret
             (drop_bit PAGE_SHIFT (max (roundup args_size PAGE_SIZE) PAGE_SIZE))
             (max (roundup args_align PAGE_SIZE) PAGE_SIZE) k
      else gk20a_instobj_ctor_dma imem create_ret
             (drop_bit PAGE_SHIFT (max (roundup args_size PAGE_SIZE) PAGE_SIZE))
             (max (roundup args_align PAGE_SIZE) PAGE_SIZE) k) = (ret, node0, k')"
    by blast
  have "\<exists>cs. calls k' = calls k @ cs
     \<and> (list_ex step_failed cs \<longrightarrow> ret \<noteq> 0)
     \<and> (ret \<noteq> 0 \<longrightarrow>
          pages (released cs) = pages (acquired cs)
        \<and> length (iovas (released cs)) = length (iovas (acquired cs))
        \<and> (iommu_pgshift imem = PAGE_SHIFT \<longrightarrow>
             iovas (released cs) = rev (iovas (acquired cs)))
        \<and> ranges (released cs) = ranges (acquired cs)
        \<and> buffers (acquired cs) = [] \<and> buffers (released cs) = [])"
  proof (cases "domain imem \<noteq> None")
    case True
    with r show ?thesis by (auto intro: ctor_iommu_unwinds)
  next
    case False
    with r show ?thesis by (auto intro: ctor_dma_unwinds)
  qed
  then obtain cs where c: "calls k' = calls k @ cs"
    and p: "(list_ex step_failed cs \<longrightarrow> ret \<noteq> 0)
     \<and> (ret \<noteq> 0 \<longrightarrow>
          pages (released cs) = pages (acquired cs)
        \<and> length (iovas (released cs)) = length (iovas (acquired cs))
        \<and> (iommu_pgshift imem = PAGE_SHIFT \<longrightarrow>
             iovas (released cs) = rev (iovas (acquired cs)))
        \<and> ranges (released cs) = ranges (acquired cs)
        \<and> buffers (acquired cs) = [] \<and> buffers (released cs) = [])"
    by blast
  have "new_calls k k' = cs" using c by (rule new_calls_append)
  with c p show ?thesis by simp
qed

lemma ctor_iommu_kernel_map_fails:
  "gk20a_instobj_ctor_iommu imem_iommu 0 4 0x1000 kernel_map_fails
     = (- 12, Some (new_instobj (Iommu_obj [Some (Page 10), Some (Page 11), Some (Page 12), Some (Page 13)])),
        kernel_map_failed)"
  by code_simp

lemma ctor_kernel_map_fails:
  "gk20a_instobj_ctor imem_iommu 0 0x4000 0x1000 kernel_map_fails
     = (- 12, Some (new_instobj (Iommu_obj [Some (Page 10), Some (Page 11), Some (Page 12), Some (Page 13)])),
        kernel_map_failed)"
  by code_simp

lemma new_calls_map_failed: "new_calls kernel_map_fails kernel_map_failed = calls kernel_map_failed"
  by (simp add: new_calls_def kernel_map_fails_def kernel0_def)

lemma create_failure_releases_at_map_failure:
  "gk20a_instobj_ctor imem_iommu 0 0x4000 0x1000 kernel_map_fails
     = (- 12, Some (new_instobj (Iommu_obj [Some (Page 10), Some (Page 11), Some (Page 12), Some (Page 13)])),
        kernel_map_failed)
   \<and> iommu_pgshift imem_iommu = PAGE_SHIFT
   \<and> list_ex step_failed (new_calls kernel_map_fails kernel_map_failed)
   \<and> pages (released (new_calls kernel_map_fails kernel_map_failed))
        = [Page 10, Page 11, Page 12, Page 13]
   \<and> pages (acquired (new_calls kernel_map_fails kernel_map_failed))
        = [Page 10, Page 11, Page 12, Page 13]
   \<and> iovas (acquired (new_calls kernel_map_fails kernel_map_failed)) = [0x100000, 0x101000]
   \<and> iovas (released (new_calls kernel_map_fails kernel_map_failed)) = [0x101000, 0x100000]
   \<and> ranges (released (new_calls kernel_map_fails kernel_map_failed))
        = ranges (acquired (new_calls kernel_map_fails kernel_map_failed))"
proof -
  show ?thesis
    using create_failure_releases[OF ctor_kernel_map_fails] ctor_kernel_map_fails
    unfolding new_calls_map_failed
    by (simp add: kernel_map_failed_def kernel0_def imem_iommu_def PAGE_SHIFT_def)
qed

lemma ctor_kernel_map_fails_64k:
  "gk20a_instobj_ctor imem_iommu_64k 0 0x4000 0x1000 kernel_map_fails
     = (- 12, Some (new_instobj (Iommu_obj [Some (Page 10), Some (Page 11), Some (Page 12), Some (Page 13)])),
        kernel_map_failed_64k)"
  by code_simp

lemma new_calls_map_failed_64k:
  "new_calls kernel_map_fails kernel_map_failed_64k = calls kernel_map_failed_64k"
  by (simp add: new_calls_def kernel_map_fails_def kernel0_def)

text \<open>
  C1, at an input where it fails. With an IOMMU whose page shift is 16, four pages are
  asked for and the third \<open>iommu_map\<close> fails: \<open>gk20a_instobj_ctor\<close> returns the error,
  frees the four pages and releases the range, but the two pages it had mapped, at
  \<open>0x1000000\<close> and \<open>0x1010000\<close>, stay mapped: the unwinding loop steps back by
  \<open>PAGE_SIZE\<close> from \<open>0x1020000\<close> and unmaps \<open>0x101F000\<close> and \<open>0x101E000\<close>.
\<close>

theorem create_failure_leaves_mappings:
  "gk20a_instobj_ctor imem_iommu_64k 0 0x4000 0x1000 kernel_map_fails
     = (- 12, Some (new_instobj (Iommu_obj [Some (Page 10), Some (Page 11), Some (Page 12), Some (Page 13)])),
        kernel_map_failed_64k)
   \<and> iovas (acquired (new_calls kernel_map_fails kernel_map_failed_64k)) = [0x1000000, 0x1010000]
   \<and> iovas (released (new_calls kernel_map_fails kernel_map_failed_64k)) = [0x101F000, 0x101E000]
   \<and> 0x1000000 \<notin> set (iovas (released (new_calls kernel_map_fails kernel_map_failed_64k)))
   \<and> 0x1010000 \<notin> set (iovas (released (new_calls kernel_map_fails kernel_map_failed_64k)))
   \<and> pages (released (new_calls kernel_map_fails kernel_map_failed_64k))
        = pages (acquired (new_calls kernel_map_fails kernel_map_failed_64k))
   \<and> ranges (released (new_calls kernel_map_fails kernel_map_failed_64k))
        = ranges (acquired (new_calls kernel_map_fails kernel_map_failed_64k))"
  using ctor_kernel_map_fails_64k unfolding new_calls_map_failed_64k
  by (simp add: kernel_map_failed_64k_def kernel0_def)

subsection \<open>A mapping that is made to fail\<close>

lemma alloc_pages_enough:
  "page_supply k = map Some ps @ rest \<Longrightarrow>
   alloc_pages (length ps) (length done) (map Some done @ replicate (length ps) None) k
     = (True, map Some (done @ ps),
        k\<lparr>page_supply := rest, calls := calls k @ map (\<lambda>p. Alloc_page (Some p)) ps\<rparr>)"
proof (induction ps arbitrary: "done" k)
  case Nil
  then show ?case by simp
next
  case (Cons p ps)
  let ?k1 = "log_call (Alloc_page (Some p)) (k\<lparr>page_supply := map Some ps @ rest\<rparr>)"
  have a: "alloc_page k = (Some p, ?k1)"
    using Cons.prems by (simp add: alloc_page_def)
  have "page_supply ?k1 = map Some ps @ rest" by simp
  from Cons.IH[OF this, of "done @ [p]"]
  have "alloc_pages (length ps) (Suc (length done))
          (map Some done @ Some p # replicate (length ps) None) ?k1
        = (True, map Some done @ Some p # map Some ps,
           ?k1\<lparr>page_supply := rest, calls := calls ?k1 @ map (\<lambda>p. Alloc_page (Some p)) ps\<rparr>)"
    by simp
  then show ?case
    using a by (simp add: list_update_append log_call_def)
qed

lemma acquired_allocs [simp]: "acquired (map (\<lambda>p. Alloc_page (Some p)) ps) = map R_page ps"
  by (induction ps) simp_all

lemma released_allocs [simp]: "released (map (\<lambda>p. Alloc_page (Some p)) ps) = []"
  by (induction ps) simp_all

lemma map_pages_fails:
  "map_supply k = oks @ e # es \<Longrightarrow> list_all (\<lambda>r. 0 \<le> r) oks \<Longrightarrow> e < 0 \<Longrightarrow>
   \<exists>k' cs. map_pages (length oks + Suc m) s off arr i k = (Some e, k')
     \<and> calls k' = calls k @ cs
     \<and> acquired cs = map R_iova (map (iova s off) [i..<i + length oks])
     \<and> released cs = map R_iova (unwind_addrs (i + length oks) (iova s off (i + length oks)))"
proof (induction oks arbitrary: i k)
  case Nil
  then have "iommu_map (iova s off i) (arr ! i) k
               = (e, log_call (Iommu_map (iova s off i) (arr ! i) e) (k\<lparr>map_supply := es\<rparr>))"
    by (simp add: iommu_map_def)
  with Nil show ?case
    by (simp add: iova_def[symmetric] Let_def unmap_mapped_calls nvkm_error_def)
next
  case (Cons r oks)
  let ?k1 = "log_call (Iommu_map (iova s off i) (arr ! i) r) (k\<lparr>map_supply := oks @ e # es\<rparr>)"
  have m: "iommu_map (iova s off i) (arr ! i) k = (r, ?k1)"
    using Cons.prems by (simp add: iommu_map_def)
  have "map_supply ?k1 = oks @ e # es" by simp
  moreover have "list_all (\<lambda>r. 0 \<le> r) oks" "\<not> r < 0" using Cons.prems by simp_all
  ultimately obtain k' cs where
    h: "map_pages (length oks + Suc m) s off arr (Suc i) ?k1 = (Some e, k')"
       "calls k' = calls ?k1 @ cs"
       "acquired cs = map R_iova (map (iova s off) [Suc i..<Suc i + length oks])"
       "released cs = map R_iova (unwind_addrs (Suc i + length oks) (iova s off (Suc i + length oks)))"
    using Cons.IH[of ?k1 "Suc i"] Cons.prems(3) by blast
  show ?case
    using h m \<open>\<not> r < 0\<close>
    by (intro exI[of _ k'] exI[of _ "Iommu_map (iova s off i) (arr ! i) r # cs"])
      (simp del: upt_Suc add: upt_conv_Cons iova_def[symmetric] Let_def)
qed

text \<open>
  C2, as amended. With an IOMMU whose page shift is that of the CPU: if the \<open>N\<close>th
  \<open>iommu_map\<close> call of an allocation of \<open>npages\<close> pages fails (the pages and the range
  having been obtained, and \<open>N - 1\<close> = \<open>length oks\<close> mappings having succeeded),
  \<open>gk20a_instobj_ctor_iommu\<close> returns the error of that call; by then exactly the
  \<open>N - 1\<close> mapped addresses have been unmapped, last mapped first, all the \<open>npages\<close>
  pages it had allocated have been freed, and the range it had reserved has been released.
\<close>

theorem map_failure_unwinds:
  assumes "iommu_pgshift imem = PAGE_SHIFT"
    and "page_supply k = map Some ps @ rest"
    and "length ps = unat npages"
    and "mm_supply k = Some off # ms"
    and "map_supply k = oks @ e # es"
    and "list_all (\<lambda>r. 0 \<le> r) oks"
    and "e < 0"
    and "length oks < unat npages"
    and "gk20a_instobj_ctor_iommu imem 0 npages align k = (ret, node, k')"
  shows "ret = e
     \<and> iovas (acquired (new_calls k k')) = map (iova (iommu_pgshift imem) off) [0..<length oks]
     \<and> iovas (released (new_calls k k')) = rev (iovas (acquired (new_calls k k')))
     \<and> length (iovas (released (new_calls k k'))) = length oks
     \<and> pages (acquired (new_calls k k')) = ps
     \<and> pages (released (new_calls k k')) = ps
     \<and> ranges (acquired (new_calls k k'))
          = [\<lparr>node_type = 1, node_offset = off, node_length = npages\<rparr>]
     \<and> ranges (released (new_calls k k'))
          = [\<lparr>node_type = 1, node_offset = off, node_length = npages\<rparr>]"
proof -
  let ?s = "iommu_pgshift imem"
  let ?rn = "\<lparr>node_type = 1, node_offset = off, node_length = npages\<rparr>"
  let ?k1 = "k\<lparr>page_supply := rest, calls := calls k @ map (\<lambda>p. Alloc_page (Some p)) ps\<rparr>"
  let ?k2 = "log_call (Mm_head npages (drop_bit ?s align) (Some ?rn)) (?k1\<lparr>mm_supply := ms\<rparr>)"
  have al: "alloc_pages (unat npages) 0 (replicate (unat npages) None) k = (True, map Some ps, ?k1)"
    using alloc_pages_enough[OF assms(2), of "[]"] assms(3) by simp
  have mm: "nvkm_mm_head npages (drop_bit ?s align) ?k1 = (Inr ?rn, ?k2)"
    using assms(4) by (simp add: nvkm_mm_head_def Let_def)
  have ms: "map_supply ?k2 = oks @ e # es" using assms(5) by simp
  have n: "length oks + Suc (unat npages - length oks - 1) = unat npages"
    using assms(8) by simp
  from map_pages_fails[OF ms assms(6) assms(7), of "unat npages - length oks - 1" ?s off "map Some ps" 0]
  obtain k3 cs where
    m: "map_pages (unat npages) ?s off (map Some ps) 0 ?k2 = (Some e, k3)"
       "calls k3 = calls ?k2 @ cs"
       "acquired cs = map R_iova (map (iova ?s off) [0..<length oks])"
       "released cs = map R_iova (unwind_addrs (length oks) (iova ?s off (length oks)))"
    unfolding n by auto
  have r: "ret = e" and k': "k' = free_pages (map Some ps) (nvkm_mm_free ?rn k3)"
    using assms(9) al mm m(1) by (simp_all add: gk20a_instobj_ctor_iommu_def)
  have "calls k' = calls k @ (map (\<lambda>p. Alloc_page (Some p)) ps
          @ [Mm_head npages (drop_bit ?s align) (Some ?rn)] @ cs @ [Mm_free ?rn]
          @ map Free_page ps)"
    unfolding k' free_pages_all using m(2) by (simp add: nvkm_mm_free_def)
  then have "new_calls k k' = map (\<lambda>p. Alloc_page (Some p)) ps
          @ [Mm_head npages (drop_bit ?s align) (Some ?rn)] @ cs @ [Mm_free ?rn]
          @ map Free_page ps"
    by (rule new_calls_append)
  then show ?thesis
    using r m(3) m(4) by (simp add: assms(1) unwind_rev)
qed

lemma new_calls_map_failed_eq:
  "new_calls kernel_map_fails kernel_map_failed =
       [Alloc_page (Some (Page 10)), Alloc_page (Some (Page 11)),
        Alloc_page (Some (Page 12)), Alloc_page (Some (Page 13)),
        Mm_head 4 1 (Some \<lparr>node_type = 1, node_offset = 0x100, node_length = 4\<rparr>),
        Iommu_map 0x100000 (Some (Page 10)) 0,
        Iommu_map 0x101000 (Some (Page 11)) 0,
        Iommu_map 0x102000 (Some (Page 12)) (- 12),
        Nvkm_error ''IOMMU mapping failure'',
        Iommu_unmap 0x101000, Iommu_unmap 0x100000,
        Mm_free \<lparr>node_type = 1, node_offset = 0x100, node_length = 4\<rparr>,
        Free_page (Page 10), Free_page (Page 11), Free_page (Page 12), Free_page (Page 13)]"
  by (simp add: new_calls_def kernel_map_fails_def kernel_map_failed_def kernel0_def)

theorem map_failure_unwinds_witness:
  "gk20a_instobj_ctor_iommu imem_iommu 0 4 0x1000 kernel_map_fails
     = (- 12, Some (new_instobj (Iommu_obj [Some (Page 10), Some (Page 11), Some (Page 12), Some (Page 13)])),
        kernel_map_failed)
   \<and> iovas (acquired (new_calls kernel_map_fails kernel_map_failed)) = [0x100000, 0x101000]
   \<and> iovas (released (new_calls kernel_map_fails kernel_map_failed)) = [0x101000, 0x100000]
   \<and> pages (released (new_calls kernel_map_fails kernel_map_failed))
        = [Page 10, Page 11, Page 12, Page 13]
   \<and> ranges (released (new_calls kernel_map_fails kernel_map_failed))
        = [\<lparr>node_type = 1, node_offset = 0x100, node_length = 4\<rparr>]"
proof -
  have p: "page_supply kernel_map_fails = map Some [Page 10, Page 11, Page 12, Page 13] @ []"
    by (simp add: kernel_map_fails_def kernel0_def)
  have n: "length [Page 10, Page 11, Page 12, Page 13] = unat (4::u32)" by simp
  have mm: "mm_supply kernel_map_fails = Some 0x100 # []"
    by (simp add: kernel_map_fails_def kernel0_def)
  have ms: "map_supply kernel_map_fails = [0, 0] @ (- 12) # []"
    by (simp add: kernel_map_fails_def kernel0_def)
  have ok: "list_all (\<lambda>r. 0 \<le> r) [0, 0::int]" by simp
  have e: "(- 12 :: int) < 0" by simp
  have l: "length [0, 0::int] < unat (4::u32)" by simp
  have s: "iommu_pgshift imem_iommu = PAGE_SHIFT" by (simp add: imem_iommu_def PAGE_SHIFT_def)
  show ?thesis
    using map_failure_unwinds[OF s p n mm ms ok e l ctor_iommu_kernel_map_fails]
      ctor_iommu_kernel_map_fails s
    by (simp add: iova_def imem_iommu_def upt_rec)
qed

text \<open>
  In the scenario of the specification (four pages, the mapping of page index 2 fails)
  the two mapped pages are unmapped and four pages are freed, not two.
\<close>

theorem map_failure_unwinds_counterexample:
  "gk20a_instobj_ctor_iommu imem_iommu 0 4 0x1000 kernel_map_fails
     = (- 12, Some (new_instobj (Iommu_obj [Some (Page 10), Some (Page 11), Some (Page 12), Some (Page 13)])),
        kernel_map_failed)
   \<and> length (iovas (released (new_calls kernel_map_fails kernel_map_failed))) = 2
   \<and> length (pages (released (new_calls kernel_map_fails kernel_map_failed))) = 4
   \<and> length (pages (released (new_calls kernel_map_fails kernel_map_failed))) \<noteq> 2"
  using ctor_iommu_kernel_map_fails by (simp add: new_calls_map_failed_eq)

subsection \<open>Teardown with the IOMMU\<close>



lemma kinds_unmap_free [simp]:
  "iovas (concat (map (\<lambda>j. [R_iova (f j), R_page (g j)]) js)) = map f js"
  "pages (concat (map (\<lambda>j. [R_iova (f j), R_page (g j)]) js)) = map g js"
  by (induction js) simp_all

lemma ranges_unmap_free [simp]:
  "ranges (concat (map (\<lambda>j. [R_iova (f j), R_page (g j)]) js)) = []"
  by (induction js) simp_all

lemma ranges_R_page [simp]: "ranges (map R_page ps) = []"
  by (induction ps) simp_all

lemma ranges_R_iova [simp]: "ranges (map R_iova as) = []"
  by (induction as) simp_all










lemma ctor_kernel_created:
  "gk20a_instobj_ctor imem_iommu 0 0x2000 0x1000 kernel_map_fails
     = (0, Some obj_iommu, kernel_created)"
  by code_simp





subsection \<open>The DMA backend\<close>

lemma ctor_dma_result:
  assumes "dma_alloc_attrs (push_bit PAGE_SHIFT npages) k = (cpu, h, k1)"
    and "gk20a_instobj_ctor_dma imem 0 npages align k = (ret, node, k')"
  shows "(cpu = 0 \<longrightarrow> ret = - ENOMEM \<and> k' = nvkm_error ''cannot allocate DMA memory'' k1)
       \<and> (cpu \<noteq> 0 \<longrightarrow> ret = 0
            \<and> (\<exists>nd. node = Some nd \<and> mem_offset (mem_obj nd) = h)
            \<and> k' = (if h AND ucast (align - 1) \<noteq> 0
                     then nvkm_warn ''memory not aligned as requested'' k1 else k1))"
  using assms by (auto simp: gk20a_instobj_ctor_dma_def Let_def new_instobj_def)

lemma dma_alloc_attrs_calls:
  "dma_alloc_attrs sz k = (cpu, h, k1) \<Longrightarrow> calls k1 = calls k @ [Dma_alloc sz cpu h]"
  by (auto simp: dma_alloc_attrs_def split: list.splits)

text \<open>
  C9. Without an IOMMU, and the object itself having been created: when the platform
  allocator succeeds (its \<open>cpuaddr\<close> is not null) \<open>gk20a_instobj_ctor\<close> returns 0 and
  the GPU offset of the object is the bus address \<open>handle\<close>, whether or not that address
  is aligned as requested; a misaligned address is reported by a warning and nothing else.
  The constructor returns an error, \<open>-ENOMEM\<close>, if and only if the platform allocator
  fails.
\<close>

theorem dma_create_accepts_any_alignment:
  assumes "domain imem = None"
    and "max (roundup args_size PAGE_SIZE) PAGE_SIZE = sz"
    and "max (roundup args_align PAGE_SIZE) PAGE_SIZE = align"
    and "dma_alloc_attrs (push_bit PAGE_SHIFT (drop_bit PAGE_SHIFT sz)) k = (cpu, h, k1)"
    and "gk20a_instobj_ctor imem 0 args_size args_align k = (ret, node, k')"
  shows "(cpu \<noteq> 0 \<longrightarrow>
            ret = 0 \<and> (\<exists>nd. node = Some nd \<and> mem_offset (mem_obj nd) = h \<and> base_addr nd = h))
       \<and> (ret \<noteq> 0 \<longleftrightarrow> cpu = 0)
       \<and> (cpu = 0 \<longrightarrow> ret = - ENOMEM)
       \<and> (Nvkm_warn ''memory not aligned as requested'' \<in> set (new_calls k k')
            \<longleftrightarrow> cpu \<noteq> 0 \<and> h AND ucast (align - 1) \<noteq> 0)"
proof -
  obtain node0 where
    r: "gk20a_instobj_ctor_dma imem 0 (drop_bit PAGE_SHIFT sz) align k = (ret, node0, k')"
    using ctor_result[OF assms(5)] assms(1) assms(2) assms(3) by auto
  note d = ctor_dma_result[OF assms(4) r]
  note c1 = dma_alloc_attrs_calls[OF assms(4)]
  show ?thesis
  proof (cases "cpu = 0")
    case True
    with d have ret: "ret = - ENOMEM" and k': "k' = nvkm_error ''cannot allocate DMA memory'' k1"
      by simp_all
    have "calls k' = calls k @ [Dma_alloc (push_bit PAGE_SHIFT (drop_bit PAGE_SHIFT sz)) cpu h,
                                Nvkm_error ''cannot allocate DMA memory'']"
      using c1 k' by (simp add: nvkm_error_def)
    then have "new_calls k k' = [Dma_alloc (push_bit PAGE_SHIFT (drop_bit PAGE_SHIFT sz)) cpu h,
                                Nvkm_error ''cannot allocate DMA memory'']"
      by (rule new_calls_append)
    with True ret show ?thesis by simp
  next
    case False
    with d obtain nd0 where ret: "ret = 0" and nd0: "node0 = Some nd0" "mem_offset (mem_obj nd0) = h"
      and k': "k' = (if h AND ucast (align - 1) \<noteq> 0
                     then nvkm_warn ''memory not aligned as requested'' k1 else k1)"
      by auto
    have "calls k' = calls k @ (Dma_alloc (push_bit PAGE_SHIFT (drop_bit PAGE_SHIFT sz)) cpu h
             # (if h AND ucast (align - 1) \<noteq> 0
                then [Nvkm_warn ''memory not aligned as requested''] else []))"
      using c1 k' by (simp add: nvkm_warn_def)
    then have n: "new_calls k k' = Dma_alloc (push_bit PAGE_SHIFT (drop_bit PAGE_SHIFT sz)) cpu h
             # (if h AND ucast (align - 1) \<noteq> 0
                then [Nvkm_warn ''memory not aligned as requested''] else [])"
      by (rule new_calls_append)
    have "\<exists>nd. node = Some nd \<and> mem_offset (mem_obj nd) = h \<and> base_addr nd = h"
      using assms(5) assms(1) assms(2) assms(3) r nd0 ret
      by (auto simp: gk20a_instobj_ctor_def Let_def)
    with False ret n show ?thesis by simp
  qed
qed

lemma ctor_kernel_dma_unaligned:
  "gk20a_instobj_ctor imem_dma 0 0x2000 0x2000 kernel_dma_unaligned
     = (0,
        Some \<lparr>base_addr = 0x80001000, base_size = 0x2000, mem = Ptr_mem_obj,
              mem_obj = \<lparr>mem_offset = 0x80001000, mem_size = 2, mem_memtype = 0,
                         mem_page_shift = 12,
                         mem_regions = [\<lparr>node_type = 12, node_offset = 0x80001, node_length = 2\<rparr>]\<rparr>,
              ext = Dma_obj 0xc0000000 0x80001000
                      \<lparr>node_type = 12, node_offset = 0x80001, node_length = 2\<rparr>\<rparr>,
        kernel0\<lparr>calls := [Dma_alloc 0x2000 0xc0000000 0x80001000,
                           Nvkm_warn ''memory not aligned as requested'']\<rparr>)"
  by code_simp

theorem dma_create_accepts_any_alignment_witness:
  "fst (gk20a_instobj_ctor imem_dma 0 0x2000 0x2000 kernel_dma_unaligned) = 0
   \<and> (0x80001000 :: u64) AND ucast ((0x2000 :: u32) - 1) \<noteq> 0
   \<and> Nvkm_warn ''memory not aligned as requested''
        \<in> set (new_calls kernel_dma_unaligned
                 (kernel0\<lparr>calls := [Dma_alloc 0x2000 0xc0000000 0x80001000,
                                    Nvkm_warn ''memory not aligned as requested'']\<rparr>))"
proof -
  have d: "domain imem_dma = None" by (simp add: imem_dma_def)
  have s: "max (roundup 0x2000 PAGE_SIZE) PAGE_SIZE = (0x2000 :: u32)"
    by (simp add: roundup_def PAGE_SIZE_def PAGE_SHIFT_def)
  have a: "dma_alloc_attrs (push_bit PAGE_SHIFT (drop_bit PAGE_SHIFT (0x2000 :: u32))) kernel_dma_unaligned
             = (0xc0000000, 0x80001000,
                kernel0\<lparr>calls := [Dma_alloc 0x2000 0xc0000000 0x80001000]\<rparr>)"
    by (simp add: dma_alloc_attrs_def kernel_dma_unaligned_def kernel0_def log_call_def PAGE_SHIFT_def)
  show ?thesis
    using dma_create_accepts_any_alignment[OF d s s a ctor_kernel_dma_unaligned]
      ctor_kernel_dma_unaligned
    by simp
qed

subsection \<open>The choice of the backend\<close>

lemma ext_new_instobj [simp]: "ext (new_instobj e) = e"
  by (simp add: new_instobj_def)

lemma ctor_iommu_layout:
  assumes "gk20a_instobj_ctor_iommu imem create_ret npages align k = (ret, Some node, k')"
  shows "is_iommu (ext node)"
proof -
  obtain ok arr k1 where al: "alloc_pages (unat npages) 0 (replicate (unat npages) None) k = (ok, arr, k1)"
    by (metis prod_cases3)
  obtain mres k2 where mm: "nvkm_mm_head npages (drop_bit (iommu_pgshift imem) align) k1 = (mres, k2)"
    by (metis surj_pair)
  have "ext node = Iommu_obj arr"
  proof (cases "create_ret = 0")
    case False
    with assms show ?thesis by (simp add: gk20a_instobj_ctor_iommu_def)
  next
    case c: True
    show ?thesis
    proof (cases ok)
      case False
      with assms c al show ?thesis by (auto simp: gk20a_instobj_ctor_iommu_def)
    next
      case ok: True
      show ?thesis
      proof (cases mres)
        case (Inl e)
        with assms c al ok mm show ?thesis by (auto simp: gk20a_instobj_ctor_iommu_def)
      next
        case (Inr rn)
        obtain res k3 where mp: "map_pages (unat npages) (iommu_pgshift imem) (node_offset rn) arr 0 k2 = (res, k3)"
          by (metis surj_pair)
        with assms c al ok mm Inr show ?thesis
          by (cases res) (auto simp: gk20a_instobj_ctor_iommu_def Let_def)
      qed
    qed
  qed
  then show ?thesis by simp
qed

lemma ctor_dma_layout:
  "gk20a_instobj_ctor_dma imem create_ret npages align k = (ret, Some node, k') \<Longrightarrow>
   \<not> is_iommu (ext node)"
  by (auto simp: gk20a_instobj_ctor_dma_def new_instobj_def Let_def
      split: if_splits prod.splits)

lemma ctor_layout:
  assumes "gk20a_instobj_ctor imem create_ret args_size args_align k = (ret, Some node, k')"
  shows "is_iommu (ext node) \<longleftrightarrow> domain imem \<noteq> None"
proof -
  from assms obtain node0 where
    "(if domain imem \<noteq> None
      then gk20a_instobj_ctor_iommu imem create_ret
             (drop_bit PAGE_SHIFT (max (roundup args_size PAGE_SIZE) PAGE_SIZE))
             (max (roundup args_align PAGE_SIZE) PAGE_SIZE) k
      else gk20a_instobj_ctor_dma imem create_ret
             (drop_bit PAGE_SHIFT (max (roundup args_size PAGE_SIZE) PAGE_SIZE))
             (max (roundup args_align PAGE_SIZE) PAGE_SIZE) k) = (ret, Some node0, k')"
    and "ext node = ext node0"
    by (auto simp: gk20a_instobj_ctor_def Let_def split: prod.splits option.splits if_splits)
  then show ?thesis
    by (auto dest: ctor_iommu_layout ctor_dma_layout split: if_splits)
qed

lemma dtor_iommu_no_bad_cast:
  "is_iommu (ext node) \<Longrightarrow> gk20a_instobj_dtor_iommu imem node k \<noteq> Inl Bad_cast"
proof (cases "ext node")
  case (Dma_obj cpu h rn)
  assume "is_iommu (ext node)"
  with Dma_obj show ?thesis by simp
next
  case (Iommu_obj ps)
  have "unmap_and_free n s off ps i k \<noteq> Inl Bad_cast" for n s off i k
    by (induction n arbitrary: i k) (auto simp: Let_def split: option.splits)
  then show ?thesis
    using Iommu_obj
    by (auto simp: gk20a_instobj_dtor_iommu_def Let_def
        split: mem_ptr.splits list.splits sum.splits)
qed

lemma dtor_dma_no_bad_cast:
  "\<not> is_iommu (ext node) \<Longrightarrow> gk20a_instobj_dtor_dma node k \<noteq> Inl Bad_cast"
  by (cases "ext node") (auto simp: gk20a_instobj_dtor_dma_def split: mem_ptr.splits)

lemma rd32_keeps_domain:
  "gk20a_instobj_rd32 imem device node off = Inr (v, imem', device') \<Longrightarrow>
   domain imem' = domain imem \<and> iommu_pgshift imem' = iommu_pgshift imem"
  by (auto simp: gk20a_instobj_rd32_def repoint_def Let_def split: mem_ptr.splits if_splits prod.splits)

lemma wr32_keeps_domain:
  "gk20a_instobj_wr32 imem device node off v = Inr (imem', device') \<Longrightarrow>
   domain imem' = domain imem \<and> iommu_pgshift imem' = iommu_pgshift imem"
  by (auto simp: gk20a_instobj_wr32_def repoint_def Let_def split: mem_ptr.splits if_splits prod.splits)

text \<open>
  C6. The subsystem \<open>gk20a_instmem_ctor\<close> constructs has an IOMMU domain if and only if
  the platform has one; the accessors and \<open>gk20a_instmem_fini\<close>, the only operations that
  write to the subsystem, leave the domain as it is. In every state \<open>imem\<close> of the
  subsystem with that domain, the object \<open>gk20a_instobj_ctor\<close> hands back has the IOMMU
  layout if and only if the platform has an IOMMU domain, and the DMA layout otherwise;
  \<open>gk20a_instobj_dtor\<close> runs the IOMMU destructor under the same condition and the DMA
  destructor otherwise, so that it never reads an object through the other layout.
\<close>

theorem backend_fixed_at_construction:
  assumes "gk20a_instmem_ctor iommu create_ret0 = (ret0, Some imem0)"
    and "domain imem = domain imem0"
    and "gk20a_instobj_ctor imem create_ret args_size args_align k = (ret, Some node, k')"
  shows "(domain imem0 \<noteq> None \<longleftrightarrow> gpu_domain iommu \<noteq> None)
       \<and> (is_iommu (ext node) \<longleftrightarrow> gpu_domain iommu \<noteq> None)
       \<and> gk20a_instobj_dtor imem node k2 =
           (case (if gpu_domain iommu \<noteq> None then gk20a_instobj_dtor_iommu imem node k2
                  else gk20a_instobj_dtor_dma node k2) of
              Inl f \<Rightarrow> Inl f
            | Inr k3 \<Rightarrow> Inr (nvkm_instobj_destroy k3))
       \<and> gk20a_instobj_dtor imem node k2 \<noteq> Inl Bad_cast
       \<and> domain (snd (gk20a_instmem_fini imem fini_ret)) = domain imem
       \<and> (case gk20a_instobj_rd32 imem device node off of
            Inl f \<Rightarrow> True
          | Inr (v, imem', device') \<Rightarrow> domain imem' = domain imem)
       \<and> (case gk20a_instobj_wr32 imem device node off data of
            Inl f \<Rightarrow> True
          | Inr (imem', device') \<Rightarrow> domain imem' = domain imem)"
proof -
  have d0: "domain imem0 \<noteq> None \<longleftrightarrow> gpu_domain iommu \<noteq> None"
    using assms(1) by (auto simp: gk20a_instmem_ctor_def Let_def split: if_splits)
  then have d: "domain imem \<noteq> None \<longleftrightarrow> gpu_domain iommu \<noteq> None"
    using assms(2) by simp
  have l: "is_iommu (ext node) \<longleftrightarrow> gpu_domain iommu \<noteq> None"
    using ctor_layout[OF assms(3)] d by simp
  have e: "gk20a_instobj_dtor imem node k2 =
           (case (if gpu_domain iommu \<noteq> None then gk20a_instobj_dtor_iommu imem node k2
                  else gk20a_instobj_dtor_dma node k2) of
              Inl f \<Rightarrow> Inl f
            | Inr k3 \<Rightarrow> Inr (nvkm_instobj_destroy k3))"
    using d by (simp add: gk20a_instobj_dtor_def)
  have b: "gk20a_instobj_dtor imem node k2 \<noteq> Inl Bad_cast"
    unfolding e using l dtor_iommu_no_bad_cast[of node imem k2] dtor_dma_no_bad_cast[of node k2]
    by (auto split: sum.splits)
  have f: "domain (snd (gk20a_instmem_fini imem fini_ret)) = domain imem"
    by (simp add: gk20a_instmem_fini_def)
  have r: "case gk20a_instobj_rd32 imem device node off of
            Inl f \<Rightarrow> True
          | Inr (v, imem', device') \<Rightarrow> domain imem' = domain imem"
    using rd32_keeps_domain[of imem device node off] by (auto split: sum.splits)
  have w: "case gk20a_instobj_wr32 imem device node off data of
            Inl f \<Rightarrow> True
          | Inr (imem', device') \<Rightarrow> domain imem' = domain imem"
    using wr32_keeps_domain[of imem device node off data] by (auto split: sum.splits)
  show ?thesis using d0 l e b f r w by blast
qed

theorem backend_fixed_at_construction_witness:
  "gk20a_instmem_ctor gpu_with_iommu 0 = (0, Some (imem_iommu\<lparr>addr := 0\<rparr>))
   \<and> domain imem_iommu = domain (imem_iommu\<lparr>addr := 0\<rparr>)
   \<and> gk20a_instobj_ctor imem_iommu 0 0x2000 0x1000 kernel_map_fails = (0, Some obj_iommu, kernel_created)
   \<and> is_iommu (ext obj_iommu)
   \<and> gk20a_instobj_dtor imem_iommu obj_iommu kernel_created \<noteq> Inl Bad_cast"
proof -
  have c: "gk20a_instmem_ctor gpu_with_iommu 0 = (0, Some (imem_iommu\<lparr>addr := 0\<rparr>))"
    by (simp add: gk20a_instmem_ctor_def gpu_with_iommu_def imem_iommu_def)
  have d: "domain imem_iommu = domain (imem_iommu\<lparr>addr := 0\<rparr>)" by simp
  note t = backend_fixed_at_construction[OF c d ctor_kernel_created,
      where ?k2.0 = kernel_created and fini_ret = 0 and device = device0 and off = 0
        and data = 0]
  have l: "is_iommu (ext obj_iommu) \<longleftrightarrow> gpu_domain gpu_with_iommu \<noteq> None"
    using t by (rule conjunct2[THEN conjunct1])
  have b: "gk20a_instobj_dtor imem_iommu obj_iommu kernel_created \<noteq> Inl Bad_cast"
    using t by (rule conjunct2[THEN conjunct2, THEN conjunct2, THEN conjunct1])
  have "is_iommu (ext obj_iommu)"
    using l by (simp add: gpu_with_iommu_def)
  with b c d ctor_kernel_created show ?thesis
    by (intro conjI)
qed

subsection \<open>Destroying an object whose creation failed\<close>

lemma dtor_dma_null_cpuaddr:
  "ext node = Dma_obj 0 h rn \<Longrightarrow> gk20a_instobj_dtor_dma node k = Inr k"
  by (simp add: gk20a_instobj_dtor_dma_def)

lemma dtor_iommu_no_region:
  "mem node = Ptr_mem_obj \<Longrightarrow> mem_regions (mem_obj node) = [] \<Longrightarrow>
   gk20a_instobj_dtor_iommu imem node k = Inr k"
  by (simp add: gk20a_instobj_dtor_iommu_def)

lemma ctor_failure_leaves_mem_null:
  assumes "gk20a_instobj_ctor imem create_ret args_size args_align k = (ret, Some node, k')"
    and "ret \<noteq> 0"
  shows "mem node = NULL"
proof -
  from assms obtain node0 where
    r: "(if domain imem \<noteq> None
      then gk20a_instobj_ctor_iommu imem create_ret
             (drop_bit PAGE_SHIFT (max (roundup args_size PAGE_SIZE) PAGE_SIZE))
             (max (roundup args_align PAGE_SIZE) PAGE_SIZE) k
      else gk20a_instobj_ctor_dma imem create_ret
             (drop_bit PAGE_SHIFT (max (roundup args_size PAGE_SIZE) PAGE_SIZE))
             (max (roundup args_align PAGE_SIZE) PAGE_SIZE) k) = (ret, Some node, k')"
    by (auto simp: gk20a_instobj_ctor_def Let_def split: prod.splits option.splits if_splits)
  show ?thesis
  proof (cases "domain imem \<noteq> None")
    case True
    let ?n = "drop_bit PAGE_SHIFT (max (roundup args_size PAGE_SIZE) PAGE_SIZE)"
    let ?a = "max (roundup args_align PAGE_SIZE) PAGE_SIZE"
    from True r have i: "gk20a_instobj_ctor_iommu imem create_ret ?n ?a k = (ret, Some node, k')"
      by simp
    obtain ok arr k1 where al: "alloc_pages (unat ?n) 0 (replicate (unat ?n) None) k = (ok, arr, k1)"
      by (metis prod_cases3)
    obtain mres k2 where mm: "nvkm_mm_head ?n (drop_bit (iommu_pgshift imem) ?a) k1 = (mres, k2)"
      by (metis surj_pair)
    have c: "create_ret = 0"
      using i by (auto simp: gk20a_instobj_ctor_iommu_def split: if_splits)
    show ?thesis
    proof (cases ok)
      case False
      with i c al show ?thesis by (auto simp: gk20a_instobj_ctor_iommu_def new_instobj_def)
    next
      case ok: True
      show ?thesis
      proof (cases mres)
        case (Inl e)
        with i c al ok mm show ?thesis by (auto simp: gk20a_instobj_ctor_iommu_def new_instobj_def)
      next
        case (Inr rn)
        obtain res k3 where mp: "map_pages (unat ?n) (iommu_pgshift imem) (node_offset rn) arr 0 k2 = (res, k3)"
          by (metis surj_pair)
        with i c al ok mm Inr show ?thesis
          by (cases res) (auto simp: gk20a_instobj_ctor_iommu_def Let_def new_instobj_def)
      qed
    qed
  next
    case False
    with r show ?thesis
      by (auto simp: gk20a_instobj_ctor_dma_def Let_def new_instobj_def split: if_splits prod.splits)
  qed
qed

lemma ctor_failure_cpuaddr_null:
  assumes "gk20a_instobj_ctor imem create_ret args_size args_align k = (ret, Some node, k')"
    and "ret \<noteq> 0" and "domain imem = None"
  shows "\<exists>h rn. ext node = Dma_obj 0 h rn"
  using assms
  by (auto simp: gk20a_instobj_ctor_def gk20a_instobj_ctor_dma_def Let_def new_instobj_def
      split: prod.splits option.splits if_splits)

text \<open>
  Without an IOMMU the destruction of an object whose creation failed calls nothing but
  \<open>nvkm_instobj_destroy\<close>; with an IOMMU it reads the region list through \<open>node->mem\<close>,
  which the constructor sets on success only.
\<close>

lemma failed_dma_object_destroyed:
  assumes "gk20a_instobj_ctor imem create_ret args_size args_align k = (ret, Some node, k')"
    and "ret \<noteq> 0" and "domain imem = None"
  shows "gk20a_instobj_dtor imem node k2 = Inr (nvkm_instobj_destroy k2)"
proof -
  from ctor_failure_cpuaddr_null[OF assms] obtain h rn where "ext node = Dma_obj 0 h rn"
    by blast
  then show ?thesis
    using assms(3) by (simp add: gk20a_instobj_dtor_def dtor_dma_null_cpuaddr)
qed

lemma failed_iommu_object_destroyed:
  assumes "gk20a_instobj_ctor imem create_ret args_size args_align k = (ret, Some node, k')"
    and "ret \<noteq> 0" and "domain imem \<noteq> None"
  shows "gk20a_instobj_dtor imem node k2 = Inl Null_pointer"
  using ctor_failure_leaves_mem_null[OF assms(1) assms(2)] assms(3)
  by (simp add: gk20a_instobj_dtor_def gk20a_instobj_dtor_iommu_def)

lemma ctor_kernel0_iommu:
  "gk20a_instobj_ctor imem_iommu 0 0x1000 0x1000 kernel0
     = (- 12, Some obj_failed, kernel0\<lparr>calls := [Alloc_page None]\<rparr>)"
  by code_simp

text \<open>
  C10, at the input where it fails. With an IOMMU and a kernel that has no page to give,
  \<open>gk20a_instobj_ctor\<close> returns \<open>-ENOMEM\<close> and hands back an object whose \<open>mem\<close> is
  still null; destroying that object is not a no-op: \<open>gk20a_instobj_dtor_iommu\<close> reads
  the region list through the null pointer.
\<close>

theorem destroy_after_failed_iommu_create:
  "gk20a_instobj_ctor imem_iommu 0 0x1000 0x1000 kernel0
     = (- ENOMEM, Some obj_failed, kernel0\<lparr>calls := [Alloc_page None]\<rparr>)
   \<and> mem obj_failed = NULL
   \<and> gk20a_instobj_dtor imem_iommu obj_failed (kernel0\<lparr>calls := [Alloc_page None]\<rparr>)
       = Inl Null_pointer"
proof -
  have d: "domain imem_iommu \<noteq> None" by (simp add: imem_iommu_def)
  have n: "(- 12 :: int) \<noteq> 0" by simp
  show ?thesis
    using ctor_kernel0_iommu failed_iommu_object_destroyed[OF ctor_kernel0_iommu n d]
      ctor_failure_leaves_mem_null[OF ctor_kernel0_iommu n]
    by (simp add: ENOMEM_def)
qed

end
